theory Spec2Isabelle
  imports Complex_Main
begin

text \<open>
  A shallow embedding of the moving-average crossover backtest: the function
  \<open>fallback_backtest_csv\<close> of \<open>run_backtest_FIXED.py\<close> (indicator columns, the
  trading loop over the rows 50 to \<open>len(df) - 2\<close>, the closure at the end and the equity
  table) and the crossover test of \<open>MACrossRSIStrategy.on_bar\<close> in
  \<open>ma_cross_rsi_strategy.py\<close>. Line numbers refer to \<open>run_backtest_FIXED.py\<close> unless
  the other file is named. Reading the CSV, writing the three output files and printing
  the report are not modelled; the input is the table of rows already loaded.
\<close>

section \<open>Numeric values\<close>

text \<open>
  The backtest works on pandas float columns. A value is either missing (\<open>NaN\<close>, which
  pandas produces for an empty CSV cell, for a rolling window that is not full and for the
  first element of \<open>diff()\<close>) or a number. Numbers are idealised as exact reals: rounding,
  overflow and infinities are outside the model. Arithmetic propagates \<open>NaN\<close>; every
  ordering comparison with \<open>NaN\<close> is false, as in IEEE 754.
\<close>

datatype pyfloat = NaN | Fin real

fun isna :: "pyfloat \<Rightarrow> bool" where
  "isna NaN = True"
| "isna (Fin x) = False"

fun fadd :: "pyfloat \<Rightarrow> pyfloat \<Rightarrow> pyfloat" where
  "fadd (Fin x) (Fin y) = Fin (x + y)"
| "fadd a b = NaN"

fun fsub :: "pyfloat \<Rightarrow> pyfloat \<Rightarrow> pyfloat" where
  "fsub (Fin x) (Fin y) = Fin (x - y)"
| "fsub a b = NaN"

fun fmul :: "pyfloat \<Rightarrow> pyfloat \<Rightarrow> pyfloat" where
  "fmul (Fin x) (Fin y) = Fin (x * y)"
| "fmul a b = NaN"

text \<open>
  Division is only used on pandas columns (lines 60 and 61), where a zero divisor gives
  an infinity or \<open>NaN\<close> instead of raising. Infinities are not modelled, so a zero divisor
  maps to \<open>NaN\<close>; lemma \<open>rsi_divisors_positive\<close> below shows the case is never reached.
\<close>

fun fdiv :: "pyfloat \<Rightarrow> pyfloat \<Rightarrow> pyfloat" where
  "fdiv (Fin x) (Fin y) = (if y = 0 then NaN else Fin (x / y))"
| "fdiv a b = NaN"

fun fneg :: "pyfloat \<Rightarrow> pyfloat" where
  "fneg (Fin x) = Fin (- x)"
| "fneg NaN = NaN"

fun flt :: "pyfloat \<Rightarrow> pyfloat \<Rightarrow> bool" where
  "flt (Fin x) (Fin y) = (x < y)"
| "flt a b = False"

fun fle :: "pyfloat \<Rightarrow> pyfloat \<Rightarrow> bool" where
  "fle (Fin x) (Fin y) = (x \<le> y)"
| "fle a b = False"

definition fgt :: "pyfloat \<Rightarrow> pyfloat \<Rightarrow> bool" where
  "fgt a b = flt b a"

definition fge :: "pyfloat \<Rightarrow> pyfloat \<Rightarrow> bool" where
  "fge a b = fle b a"

section \<open>Crossover detection\<close>

datatype signal = NoSignal | BullishCross | BearishCross

text \<open>
  The \<open>if\<close>/\<open>elif\<close> chain of \<open>fallback_backtest_csv\<close> (lines 100 and 153): the first
  condition selects the buy branch, the second the sell branch, otherwise the bar has no
  signal. The thresholds 70 and 30 are literals of the source.
\<close>

definition detect_cross :: "pyfloat \<Rightarrow> pyfloat \<Rightarrow> pyfloat \<Rightarrow> pyfloat \<Rightarrow> pyfloat \<Rightarrow> signal" where
  "detect_cross prev_fast_ma prev_slow_ma fast_ma slow_ma rsi =
     (if fle prev_fast_ma prev_slow_ma \<and> fgt fast_ma slow_ma \<and> flt rsi (Fin 70)
      then BullishCross
      else if fge prev_fast_ma prev_slow_ma \<and> flt fast_ma slow_ma \<and> fgt rsi (Fin 30)
      then BearishCross
      else NoSignal)"

text \<open>
  \<open>MACrossRSIConfig\<close> of \<open>ma_cross_rsi_strategy.py\<close> with its defaults, and the crossover
  test of \<open>MACrossRSIStrategy.on_bar\<close> (lines 100 to 126). The strategy keeps the previous
  moving averages in two fields that are \<open>None\<close> until the first ready bar; the indicator
  values come from the framework and are numbers once the indicators are initialised.
\<close>

record MACrossRSIConfig =
  fast_ma_period :: nat
  slow_ma_period :: nat
  rsi_period :: nat
  rsi_oversold :: int
  rsi_overbought :: int
  trade_size :: real

definition default_config :: MACrossRSIConfig where
  "default_config = \<lparr>fast_ma_period = 20, slow_ma_period = 50, rsi_period = 14,
     rsi_oversold = 30, rsi_overbought = 70, trade_size = 1.0\<rparr>"

definition on_bar_signal ::
  "MACrossRSIConfig \<Rightarrow> real option \<Rightarrow> real option \<Rightarrow> real \<Rightarrow> real \<Rightarrow> real \<Rightarrow> signal" where
  "on_bar_signal cfg previous_fast_ma previous_slow_ma fast_ma_value slow_ma_value rsi_value =
     (case previous_fast_ma of
        None \<Rightarrow> NoSignal
      | Some pf \<Rightarrow>
          (case previous_slow_ma of
             None \<Rightarrow> NoSignal
           | Some ps \<Rightarrow>
               if pf \<le> ps \<and> fast_ma_value > slow_ma_value
                  \<and> rsi_value < real_of_int (rsi_overbought cfg)
               then BullishCross
               else if pf \<ge> ps \<and> fast_ma_value < slow_ma_value
                  \<and> rsi_value > real_of_int (rsi_oversold cfg)
               then BearishCross
               else NoSignal))"

section \<open>Data model of the backtest\<close>

text \<open>
  One row of \<open>ohlcv.csv\<close>. Timestamps are integer epoch seconds; \<open>datetime.fromtimestamp\<close>
  is represented by the epoch value it converts (timestamps are assumed to lie in the
  range the conversion accepts). Field names carry a prefix because HOL records share
  one name space.
\<close>

record bar =
  b_timestamp :: int
  b_open :: pyfloat
  b_high :: pyfloat
  b_low :: pyfloat
  b_close :: pyfloat
  b_volume :: pyfloat

datatype pos_side = LONG | SHORT

datatype order_side = BUY | SELL

text \<open>The dictionary held in the variable \<open>position\<close> (lines 136 and 189).\<close>

record open_position =
  p_side :: pos_side
  p_entry_price :: pyfloat
  p_entry_timestamp :: int
  p_entry_idx :: nat

text \<open>An element of the list \<open>fills\<close> (lines 110, 143, 163, 196).\<close>

record fill =
  f_timestamp :: int
  f_instrument :: string
  f_side :: order_side
  f_quantity :: pyfloat
  f_price :: pyfloat
  f_commission :: pyfloat

text \<open>An element of the list \<open>positions\<close>, a closed trade (lines 119, 172, 221).\<close>

record closed_trade =
  t_entry_time :: int
  t_exit_time :: int
  t_side :: pos_side
  t_quantity :: pyfloat
  t_entry_price :: pyfloat
  t_exit_price :: pyfloat
  t_pnl :: pyfloat

text \<open>The mutable variables of \<open>fallback_backtest_csv\<close> (lines 66 to 74).\<close>

record state =
  fills :: "fill list"
  positions :: "closed_trade list"
  equity :: "pyfloat list"
  position :: "open_position option"
  current_balance :: pyfloat

definition starting_balance :: pyfloat where
  "starting_balance = Fin 100000"

definition init_state :: state where
  "init_state = \<lparr>fills = [], positions = [], equity = [Fin 100000], position = None,
     current_balance = starting_balance\<rparr>"

section \<open>Indicator columns\<close>

text \<open>
  \<open>Series.rolling(window=w).mean()\<close> at row \<open>i\<close>: \<open>NaN\<close> until the window is full and
  whenever the window holds a \<open>NaN\<close>, otherwise the arithmetic mean of the last \<open>w\<close> values.
\<close>

fun fval :: "pyfloat \<Rightarrow> real" where
  "fval (Fin x) = x"
| "fval NaN = 0"

definition window :: "nat \<Rightarrow> 'a list \<Rightarrow> nat \<Rightarrow> 'a list" where
  "window w xs i = take w (drop (Suc i - w) xs)"

definition rolling_mean :: "nat \<Rightarrow> pyfloat list \<Rightarrow> nat \<Rightarrow> pyfloat" where
  "rolling_mean w xs i =
     (if Suc i < w then NaN
      else if list_ex isna (window w xs i) then NaN
      else Fin (sum_list (map fval (window w xs i)) / real w))"

definition close_col :: "bar list \<Rightarrow> pyfloat list" where
  "close_col df = map b_close df"

definition fast_ma_col :: "bar list \<Rightarrow> pyfloat list" where
  "fast_ma_col df = map (rolling_mean 20 (close_col df)) [0..<length df]"

definition slow_ma_col :: "bar list \<Rightarrow> pyfloat list" where
  "slow_ma_col df = map (rolling_mean 50 (close_col df)) [0..<length df]"

text \<open>\<open>df['close'].diff()\<close>: the first row has no predecessor.\<close>

definition price_diff :: "pyfloat list \<Rightarrow> nat \<Rightarrow> pyfloat" where
  "price_diff cl i = (if i = 0 then NaN else fsub (cl ! i) (cl ! (i - 1)))"

text \<open>The two lambdas of lines 56 and 57; a \<open>NaN\<close> difference fails both tests and gives 0.\<close>

definition gain_of :: "pyfloat \<Rightarrow> pyfloat" where
  "gain_of x = (if fgt x (Fin 0) then x else Fin 0)"

definition loss_of :: "pyfloat \<Rightarrow> pyfloat" where
  "loss_of x = (if flt x (Fin 0) then fneg x else Fin 0)"

definition gain_col :: "bar list \<Rightarrow> pyfloat list" where
  "gain_col df = map (\<lambda>i. gain_of (price_diff (close_col df) i)) [0..<length df]"

definition loss_col :: "bar list \<Rightarrow> pyfloat list" where
  "loss_col df = map (\<lambda>i. loss_of (price_diff (close_col df) i)) [0..<length df]"

definition avg_gain_col :: "bar list \<Rightarrow> pyfloat list" where
  "avg_gain_col df = map (rolling_mean 14 (gain_col df)) [0..<length df]"

definition avg_loss_col :: "bar list \<Rightarrow> pyfloat list" where
  "avg_loss_col df = map (rolling_mean 14 (loss_col df)) [0..<length df]"

definition rs_col :: "bar list \<Rightarrow> pyfloat list" where
  "rs_col df = map (\<lambda>i. fdiv (avg_gain_col df ! i)
                            (fadd (avg_loss_col df ! i) (Fin (1 / 10000000000))))
                   [0..<length df]"

definition rsi_col :: "bar list \<Rightarrow> pyfloat list" where
  "rsi_col df = map (\<lambda>i. fsub (Fin 100) (fdiv (Fin 100) (fadd (Fin 1) (rs_col df ! i))))
                    [0..<length df]"

section \<open>The trading loop\<close>

text \<open>The fee of lines 106, 133, 159, 186 and 217: \<open>price * 0.0001 * 1.0\<close>.\<close>

definition fee_of :: "pyfloat \<Rightarrow> pyfloat" where
  "fee_of price = fmul (fmul price (Fin (1 / 10000))) (Fin 1)"

text \<open>Lines 103 to 128: close an existing short position at the next bar's open.\<close>

definition close_short :: "bar \<Rightarrow> state \<Rightarrow> state" where
  "close_short next_bar st =
     (case position st of
        None \<Rightarrow> st
      | Some p \<Rightarrow>
          if p_side p = SHORT then
            (let exit_price = b_open next_bar;
                 pnl = fmul (fsub (p_entry_price p) exit_price) (Fin 1);
                 fees = fee_of exit_price;
                 net_pnl = fsub pnl fees
             in st\<lparr>current_balance := fadd (current_balance st) net_pnl,
                  fills := fills st @ [\<lparr>f_timestamp = b_timestamp next_bar,
                     f_instrument = ''TEST.SIM'', f_side = BUY, f_quantity = Fin 1,
                     f_price = exit_price, f_commission = fees\<rparr>],
                  positions := positions st @ [\<lparr>t_entry_time = p_entry_timestamp p,
                     t_exit_time = b_timestamp next_bar, t_side = SHORT, t_quantity = Fin 1,
                     t_entry_price = p_entry_price p, t_exit_price = exit_price,
                     t_pnl = net_pnl\<rparr>],
                  position := None\<rparr>)
          else st)"

text \<open>Lines 131 to 150: open a long position when none is held.\<close>

definition open_long :: "bar \<Rightarrow> nat \<Rightarrow> state \<Rightarrow> state" where
  "open_long next_bar i st =
     (case position st of
        Some p \<Rightarrow> st
      | None \<Rightarrow>
          (let entry_price = b_open next_bar;
               fees = fee_of entry_price
           in st\<lparr>current_balance := fsub (current_balance st) fees,
                position := Some \<lparr>p_side = LONG, p_entry_price = entry_price,
                   p_entry_timestamp = b_timestamp next_bar, p_entry_idx = i + 1\<rparr>,
                fills := fills st @ [\<lparr>f_timestamp = b_timestamp next_bar,
                   f_instrument = ''TEST.SIM'', f_side = BUY, f_quantity = Fin 1,
                   f_price = entry_price, f_commission = fees\<rparr>]\<rparr>))"

text \<open>Lines 156 to 181: close an existing long position at the next bar's open.\<close>

definition close_long :: "bar \<Rightarrow> state \<Rightarrow> state" where
  "close_long next_bar st =
     (case position st of
        None \<Rightarrow> st
      | Some p \<Rightarrow>
          if p_side p = LONG then
            (let exit_price = b_open next_bar;
                 pnl = fmul (fsub exit_price (p_entry_price p)) (Fin 1);
                 fees = fee_of exit_price;
                 net_pnl = fsub pnl fees
             in st\<lparr>current_balance := fadd (current_balance st) net_pnl,
                  fills := fills st @ [\<lparr>f_timestamp = b_timestamp next_bar,
                     f_instrument = ''TEST.SIM'', f_side = SELL, f_quantity = Fin 1,
                     f_price = exit_price, f_commission = fees\<rparr>],
                  positions := positions st @ [\<lparr>t_entry_time = p_entry_timestamp p,
                     t_exit_time = b_timestamp next_bar, t_side = LONG, t_quantity = Fin 1,
                     t_entry_price = p_entry_price p, t_exit_price = exit_price,
                     t_pnl = net_pnl\<rparr>],
                  position := None\<rparr>)
          else st)"

text \<open>Lines 184 to 203: open a short position when none is held.\<close>

definition open_short :: "bar \<Rightarrow> nat \<Rightarrow> state \<Rightarrow> state" where
  "open_short next_bar i st =
     (case position st of
        Some p \<Rightarrow> st
      | None \<Rightarrow>
          (let entry_price = b_open next_bar;
               fees = fee_of entry_price
           in st\<lparr>current_balance := fsub (current_balance st) fees,
                position := Some \<lparr>p_side = SHORT, p_entry_price = entry_price,
                   p_entry_timestamp = b_timestamp next_bar, p_entry_idx = i + 1\<rparr>,
                fills := fills st @ [\<lparr>f_timestamp = b_timestamp next_bar,
                   f_instrument = ''TEST.SIM'', f_side = SELL, f_quantity = Fin 1,
                   f_price = entry_price, f_commission = fees\<rparr>]\<rparr>))"

text \<open>The two \<open>continue\<close> tests of lines 91 to 94.\<close>

definition skipped :: "bar list \<Rightarrow> nat \<Rightarrow> bool" where
  "skipped df i =
     (if isna (fast_ma_col df ! i) \<or> isna (slow_ma_col df ! i) \<or> isna (rsi_col df ! i)
      then True
      else isna (fast_ma_col df ! (i - 1)) \<or> isna (slow_ma_col df ! (i - 1)))"

text \<open>The signal the tests of lines 100 and 153 see at row \<open>i\<close>.\<close>

definition signal_at :: "bar list \<Rightarrow> nat \<Rightarrow> signal" where
  "signal_at df i =
     detect_cross (fast_ma_col df ! (i - 1)) (slow_ma_col df ! (i - 1))
       (fast_ma_col df ! i) (slow_ma_col df ! i) (rsi_col df ! i)"

text \<open>
  One iteration of the loop of line 77, for a row index \<open>i\<close> with \<open>50 \<le> i\<close> and
  \<open>i + 1 < length df\<close>. A skipped bar leaves every variable as it is (\<open>continue\<close> also
  jumps over the \<open>equity.append\<close> of line 205). Otherwise the branch of the signal runs
  (its close block, then its open block) and the balance is appended to \<open>equity\<close>.
\<close>

fun apply_signal :: "signal \<Rightarrow> bar \<Rightarrow> nat \<Rightarrow> state \<Rightarrow> state" where
  "apply_signal BullishCross next_bar i st = open_long next_bar i (close_short next_bar st)"
| "apply_signal BearishCross next_bar i st = open_short next_bar i (close_long next_bar st)"
| "apply_signal NoSignal next_bar i st = st"

definition bar_step :: "bar list \<Rightarrow> state \<Rightarrow> nat \<Rightarrow> state" where
  "bar_step df st i =
     (let next_bar = df ! (i + 1) in
      if skipped df i then st
      else
        (let st' = apply_signal (signal_at df i) next_bar i st
         in st'\<lparr>equity := equity st' @ [current_balance st']\<rparr>))"

text \<open>
  The state after the loop has handled every row index below \<open>k\<close>; \<open>range(50, len(df) - 1)\<close>
  is empty when the table has fewer than 52 rows.
\<close>

definition run_upto :: "bar list \<Rightarrow> nat \<Rightarrow> state" where
  "run_upto df k = foldl (bar_step df) init_state [50..<min k (length df - 1)]"

definition run_loop :: "bar list \<Rightarrow> state" where
  "run_loop df = foldl (bar_step df) init_state [50..<length df - 1]"

text \<open>
  Lines 208 to 229: the position still held after the loop is closed at the last row's
  close. Neither \<open>fills\<close> nor \<open>equity\<close> nor \<open>position\<close> is assigned here.
\<close>

definition close_at_end :: "bar list \<Rightarrow> state \<Rightarrow> state" where
  "close_at_end df st =
     (case position st of
        None \<Rightarrow> st
      | Some p \<Rightarrow>
          (let last_bar = last df;
               exit_price = b_close last_bar;
               pnl = (if p_side p = LONG
                      then fmul (fsub exit_price (p_entry_price p)) (Fin 1)
                      else fmul (fsub (p_entry_price p) exit_price) (Fin 1));
               fees = fee_of exit_price;
               net_pnl = fsub pnl fees
           in st\<lparr>current_balance := fadd (current_balance st) net_pnl,
                positions := positions st @ [\<lparr>t_entry_time = p_entry_timestamp p,
                   t_exit_time = b_timestamp last_bar, t_side = p_side p, t_quantity = Fin 1,
                   t_entry_price = p_entry_price p, t_exit_price = exit_price,
                   t_pnl = net_pnl\<rparr>]\<rparr>))"

definition simulate :: "bar list \<Rightarrow> state" where
  "simulate df = close_at_end df (run_loop df)"

section \<open>The equity table\<close>

datatype error = IndexError

text \<open>
  Line 244 reads the rows \<open>50 ..< 50 + len(equity)\<close> of the table; \<open>df.iloc\<close> raises
  \<open>IndexError\<close> for a row that does not exist. Lines 245 to 248 pair the timestamps with
  the balances.
\<close>

definition equity_timestamps :: "bar list \<Rightarrow> pyfloat list \<Rightarrow> error + int list" where
  "equity_timestamps df eq =
     (if 50 + length eq \<le> length df
      then Inr (map (\<lambda>i. b_timestamp (df ! i)) [50..<50 + length eq])
      else Inl IndexError)"

definition equity_curve :: "bar list \<Rightarrow> error + (int \<times> pyfloat) list" where
  "equity_curve df =
     (case equity_timestamps df (equity (simulate df)) of
        Inl e \<Rightarrow> Inl e
      | Inr ts \<Rightarrow> Inr (zip ts (equity (simulate df))))"

section \<open>Predicates used by the properties\<close>

text \<open>
  The ledger form of the single position slot: every fill either opened or closed a
  position, every closed trade stands for one opening and one closing fill, and a held
  position for one opening fill that has no closing fill yet. The number of positions
  opened and not yet closed is therefore \<open>length fills - 2 * length positions\<close>.
\<close>

definition slot_ok :: "state \<Rightarrow> bool" where
  "slot_ok st = (length (fills st) = 2 * length (positions st)
      + (case position st of None \<Rightarrow> 0 | Some p \<Rightarrow> 1))"

text \<open>The signal that sends an order of a given side, and those that open and close a
  position of a given side.\<close>

fun order_signal :: "order_side \<Rightarrow> signal" where
  "order_signal BUY = BullishCross"
| "order_signal SELL = BearishCross"

fun entry_signal :: "pos_side \<Rightarrow> signal" where
  "entry_signal LONG = BullishCross"
| "entry_signal SHORT = BearishCross"

fun exit_signal :: "pos_side \<Rightarrow> signal" where
  "exit_signal LONG = BearishCross"
| "exit_signal SHORT = BullishCross"

text \<open>
  A price and a time are those of an execution one bar after the signal \<open>sg\<close>: some row
  \<open>i\<close> of the loop's range was evaluated, showed \<open>sg\<close>, and the price is the open and the
  time the timestamp of row \<open>i + 1\<close>.
\<close>

definition executed_after :: "bar list \<Rightarrow> signal \<Rightarrow> pyfloat \<Rightarrow> int \<Rightarrow> bool" where
  "executed_after df sg price ts =
     list_ex (\<lambda>i. \<not> skipped df i \<and> signal_at df i = sg
                \<and> price = b_open (df ! (i + 1)) \<and> ts = b_timestamp (df ! (i + 1)))
       [50..<length df - 1]"

definition fill_lagged :: "bar list \<Rightarrow> fill \<Rightarrow> bool" where
  "fill_lagged df f = executed_after df (order_signal (f_side f)) (f_price f) (f_timestamp f)"

definition entry_lagged :: "bar list \<Rightarrow> closed_trade \<Rightarrow> bool" where
  "entry_lagged df t =
     executed_after df (entry_signal (t_side t)) (t_entry_price t) (t_entry_time t)"

definition exit_lagged :: "bar list \<Rightarrow> closed_trade \<Rightarrow> bool" where
  "exit_lagged df t =
     executed_after df (exit_signal (t_side t)) (t_exit_price t) (t_exit_time t)"

definition held_lagged :: "bar list \<Rightarrow> open_position option \<Rightarrow> bool" where
  "held_lagged df po =
     (case po of
        None \<Rightarrow> True
      | Some p \<Rightarrow>
          executed_after df (entry_signal (p_side p)) (p_entry_price p) (p_entry_timestamp p))"

definition lag_ok :: "bar list \<Rightarrow> state \<Rightarrow> bool" where
  "lag_ok df st = (list_all (fill_lagged df) (fills st)
     \<and> list_all (\<lambda>t. entry_lagged df t \<and> exit_lagged df t) (positions st)
     \<and> held_lagged df (position st))"

text \<open>The trade record that lines 221 to 229 append for a position \<open>p\<close> held at the end.\<close>

definition forced_trade :: "bar list \<Rightarrow> open_position \<Rightarrow> closed_trade" where
  "forced_trade df p =
     \<lparr>t_entry_time = p_entry_timestamp p, t_exit_time = b_timestamp (last df),
      t_side = p_side p, t_quantity = Fin 1, t_entry_price = p_entry_price p,
      t_exit_price = b_close (last df),
      t_pnl = fsub (if p_side p = LONG
                    then fmul (fsub (b_close (last df)) (p_entry_price p)) (Fin 1)
                    else fmul (fsub (p_entry_price p) (b_close (last df))) (Fin 1))
                (fee_of (b_close (last df)))\<rparr>"

text \<open>
  The iteration of row \<open>i\<close> opens a position: the state after it holds a position that
  the state before it did not hold (a position opened from flat, or the opposite one
  opened by a reversal). \<open>opened_count\<close> is the number of positions the pass opens.
\<close>

definition opens_position :: "bar list \<Rightarrow> nat \<Rightarrow> bool" where
  "opens_position df i =
     (case position (run_upto df (Suc i)) of
        None \<Rightarrow> False
      | Some q \<Rightarrow> position (run_upto df i) \<noteq> Some q)"

definition opened_count :: "bar list \<Rightarrow> nat" where
  "opened_count df = length (filter (opens_position df) [50..<length df - 1])"

definition held_count :: "state \<Rightarrow> nat" where
  "held_count st = (case position st of None \<Rightarrow> 0 | Some p \<Rightarrow> 1)"

text \<open>
  The price difference of a trade in the direction of its side, and two candidate
  formulas for its recorded profit. \<open>spec_pnl\<close> follows the words of the specification
  (difference times quantity, minus the entry fee, minus the exit fee); \<open>exit_fee_pnl\<close>
  subtracts the exit fee only. \<open>within_tolerance\<close> is agreement up to \<open>1e-9\<close>.
\<close>

definition side_difference :: "closed_trade \<Rightarrow> pyfloat" where
  "side_difference t =
     (if t_side t = LONG then fsub (t_exit_price t) (t_entry_price t)
      else fsub (t_entry_price t) (t_exit_price t))"

definition spec_pnl :: "closed_trade \<Rightarrow> pyfloat" where
  "spec_pnl t =
     fsub (fsub (fmul (side_difference t) (t_quantity t)) (fee_of (t_entry_price t)))
          (fee_of (t_exit_price t))"

definition exit_fee_pnl :: "closed_trade \<Rightarrow> pyfloat" where
  "exit_fee_pnl t = fsub (fmul (side_difference t) (t_quantity t)) (fee_of (t_exit_price t))"

fun within_tolerance :: "pyfloat \<Rightarrow> pyfloat \<Rightarrow> bool" where
  "within_tolerance (Fin x) (Fin y) = (\<bar>x - y\<bar> \<le> 1 / 1000000000)"
| "within_tolerance a b = False"

definition pnl_ok :: "closed_trade \<Rightarrow> bool" where
  "pnl_ok t = (t_quantity t = Fin 1 \<and> t_pnl t = exit_fee_pnl t)"

text \<open>The rows of the loop's range that reach the \<open>equity.append\<close> of line 205.\<close>

definition evaluated_bars :: "bar list \<Rightarrow> nat list" where
  "evaluated_bars df = filter (\<lambda>i. \<not> skipped df i) [50..<length df - 1]"

text \<open>The number of skipped rows of the range below row \<open>i\<close>.\<close>

definition skipped_before :: "bar list \<Rightarrow> nat \<Rightarrow> nat" where
  "skipped_before df i = length (filter (skipped df) [50..<i])"

text \<open>
  The pairing of a run without skipped rows: the starting balance stands next to the
  timestamp of row 50, and the balance appended by the iteration of row \<open>i\<close> next to the
  timestamp of row \<open>i + 1\<close>, the row at whose open that iteration executes.
\<close>

definition paired_as_unskipped :: "bar list \<Rightarrow> bool" where
  "paired_as_unskipped df =
     (equity_curve df =
        Inr (zip (map (\<lambda>i. b_timestamp (df ! i)) (50 # map Suc (evaluated_bars df)))
                 (equity (simulate df))))"

section \<open>Sample bar streams\<close>

definition quiet_bar :: "int \<Rightarrow> real \<Rightarrow> bar" where
  "quiet_bar ts c = \<lparr>b_timestamp = ts, b_open = Fin c, b_high = Fin c, b_low = Fin c,
     b_close = Fin c, b_volume = Fin 1\<rparr>"

text \<open>
  53 one-minute bars: 49 closes at 100, then 80, 125, 90, 92. Row 50 shows a bullish
  cross (executed at the open of row 51, 120), row 51 a bearish cross (executed at the
  open of row 52, 95); the short position is still held when the rows run out.
\<close>

definition bars_reversal :: "bar list" where
  "bars_reversal = map (\<lambda>k. quiet_bar (60 * int k) 100) [0..<49] @
     [quiet_bar 2940 80, quiet_bar 3000 125,
      \<lparr>b_timestamp = 3060, b_open = Fin 120, b_high = Fin 120, b_low = Fin 90,
       b_close = Fin 90, b_volume = Fin 1\<rparr>,
      \<lparr>b_timestamp = 3120, b_open = Fin 95, b_high = Fin 95, b_low = Fin 92,
       b_close = Fin 92, b_volume = Fin 1\<rparr>]"

text \<open>The same stream behind a first row whose close is missing: row 50 is skipped
  (its previous slow average is \<open>NaN\<close>), rows 51 and 52 are evaluated.\<close>

definition bars_gap :: "bar list" where
  "bars_gap = (quiet_bar (- 60) 100)\<lparr>b_close := NaN\<rparr> # bars_reversal"

text \<open>The same stream with one more row and the close of row 52 missing: rows 50 and 51
  are evaluated, row 52, the last of the range, is skipped.\<close>

definition bars_tail_gap :: "bar list" where
  "bars_tail_gap = take 52 bars_reversal @
     [\<lparr>b_timestamp = 3120, b_open = Fin 95, b_high = Fin 95, b_low = Fin 92,
       b_close = NaN, b_volume = Fin 1\<rparr>,
      quiet_bar 3180 92]"

text \<open>Bars that all close at 100: 52 of them, and the 100 of the flat scenario.\<close>

definition bars_flat52 :: "bar list" where
  "bars_flat52 = map (\<lambda>k. quiet_bar (60 * int k) 100) [0..<52]"

definition bars_flat100 :: "bar list" where
  "bars_flat100 = map (\<lambda>k. quiet_bar (60 * int k) 100) [0..<100]"

section \<open>Properties of the crossover detector\<close>

lemma detect_cross_bullish_iff:
  "(detect_cross (Fin pf) (Fin ps) (Fin f) (Fin s) (Fin r) = BullishCross)
     = (pf \<le> ps \<and> s < f \<and> r < 70)"
  by (simp add: detect_cross_def fgt_def fge_def)

lemma detect_cross_bearish_iff:
  "(detect_cross (Fin pf) (Fin ps) (Fin f) (Fin s) (Fin r) = BearishCross)
     = (ps \<le> pf \<and> f < s \<and> 30 < r)"
  by (auto simp add: detect_cross_def fgt_def fge_def)

lemma on_bar_signal_default:
  "on_bar_signal default_config (Some pf) (Some ps) f s r
     = detect_cross (Fin pf) (Fin ps) (Fin f) (Fin s) (Fin r)"
  by (simp add: on_bar_signal_def default_config_def detect_cross_def fgt_def fge_def)

text \<open>
  Claim C3. For two consecutive ready snapshots (all five values are numbers) the detector
  answers \<open>BullishCross\<close> exactly when the previous fast average is at most the previous
  slow one, the current fast average is strictly above the current slow one and the RSI is
  below 70; it answers \<open>BearishCross\<close> exactly when the previous fast average is at least
  the previous slow one, the current fast average is strictly below the current slow one
  and the RSI is above 30; it answers \<open>NoSignal\<close> exactly when neither holds. Equal
  averages on the previous bar satisfy both previous-bar tests, equal averages on the
  current bar never give a signal, and the strategy class with its default thresholds
  classifies the same way.
\<close>

theorem detect_cross_classification:
  "((detect_cross (Fin pf) (Fin ps) (Fin f) (Fin s) (Fin r) = BullishCross)
       = (pf \<le> ps \<and> f > s \<and> r < 70))
   \<and> ((detect_cross (Fin pf) (Fin ps) (Fin f) (Fin s) (Fin r) = BearishCross)
       = (pf \<ge> ps \<and> f < s \<and> r > 30))
   \<and> ((detect_cross (Fin pf) (Fin ps) (Fin f) (Fin s) (Fin r) = NoSignal)
       = (\<not> (pf \<le> ps \<and> f > s \<and> r < 70) \<and> \<not> (pf \<ge> ps \<and> f < s \<and> r > 30)))
   \<and> ((detect_cross (Fin m) (Fin m) (Fin f) (Fin s) (Fin r) = BullishCross)
       = (f > s \<and> r < 70))
   \<and> ((detect_cross (Fin m) (Fin m) (Fin f) (Fin s) (Fin r) = BearishCross)
       = (f < s \<and> r > 30))
   \<and> detect_cross (Fin pf) (Fin ps) (Fin m) (Fin m) (Fin r) = NoSignal
   \<and> on_bar_signal default_config (Some pf) (Some ps) f s r
       = detect_cross (Fin pf) (Fin ps) (Fin f) (Fin s) (Fin r)"
proof -
  have none: "(detect_cross (Fin pf) (Fin ps) (Fin f) (Fin s) (Fin r) = NoSignal)
       = (\<not> (pf \<le> ps \<and> f > s \<and> r < 70) \<and> \<not> (pf \<ge> ps \<and> f < s \<and> r > 30))"
    by (simp add: detect_cross_def fgt_def fge_def)
  have tie: "detect_cross (Fin pf) (Fin ps) (Fin m) (Fin m) (Fin r) = NoSignal"
    by (simp add: detect_cross_def fgt_def fge_def)
  show ?thesis
    using none tie
    by (simp only: detect_cross_bullish_iff detect_cross_bearish_iff on_bar_signal_default)
       simp
qed

section \<open>The divisions of the RSI never meet a zero divisor\<close>

lemma gain_loss_nonneg: "0 \<le> fval (gain_of x)" "0 \<le> fval (loss_of x)"
  by (cases x; simp add: gain_of_def loss_of_def fgt_def)+

lemma rolling_mean_nonneg:
  assumes "\<forall>x \<in> set xs. 0 \<le> fval x"
  shows "0 \<le> fval (rolling_mean w xs i)"
proof -
  have "set (window w xs i) \<subseteq> set xs"
    unfolding window_def
    by (meson set_take_subset set_drop_subset subset_trans)
  with assms have "\<forall>v \<in> set (map fval (window w xs i)). 0 \<le> v" by auto
  then have "0 \<le> sum_list (map fval (window w xs i))" by (intro sum_list_nonneg) auto
  then show ?thesis by (simp add: rolling_mean_def)
qed

lemma avg_gain_loss_nonneg:
  assumes "i < length df"
  shows "0 \<le> fval (avg_gain_col df ! i)" and "0 \<le> fval (avg_loss_col df ! i)"
  using assms
  by (auto simp: avg_gain_col_def avg_loss_col_def gain_col_def loss_col_def
        gain_loss_nonneg intro!: rolling_mean_nonneg)

lemma rsi_divisors_positive:
  assumes "i < length df"
  shows "0 < fval (fadd (avg_loss_col df ! i) (Fin (1 / 10000000000)))
            \<or> isna (avg_loss_col df ! i)"
    and "0 < fval (fadd (Fin 1) (rs_col df ! i)) \<or> isna (rs_col df ! i)"
proof -
  have g: "0 \<le> fval (avg_gain_col df ! i)" and l: "0 \<le> fval (avg_loss_col df ! i)"
    using assms by (rule avg_gain_loss_nonneg)+
  from l show "0 < fval (fadd (avg_loss_col df ! i) (Fin (1 / 10000000000)))
            \<or> isna (avg_loss_col df ! i)"
    by (cases "avg_loss_col df ! i") simp_all
  show "0 < fval (fadd (Fin 1) (rs_col df ! i)) \<or> isna (rs_col df ! i)"
  proof (cases "avg_loss_col df ! i")
    case NaN
    then show ?thesis using assms by (simp add: rs_col_def)
  next
    case lo: (Fin y)
    show ?thesis
    proof (cases "avg_gain_col df ! i")
      case NaN
      then show ?thesis using assms by (simp add: rs_col_def)
    next
      case (Fin x)
      from g l lo Fin have "0 \<le> x" and "0 \<le> y" by simp_all
      then have "0 < y + 1 / 10000000000" by simp
      with \<open>0 \<le> x\<close> have "0 \<le> x / (y + 1 / 10000000000)" by simp
      then have "0 < 1 + x / (y + 1 / 10000000000)" by simp
      with \<open>0 < y + 1 / 10000000000\<close> show ?thesis
        using assms lo Fin by (simp add: rs_col_def)
    qed
  qed
qed

section \<open>The loop, step by step\<close>

lemma foldl_invariant:
  assumes "P st" and "\<And>s i. i \<in> set xs \<Longrightarrow> P s \<Longrightarrow> P (f s i)"
  shows "P (foldl f st xs)"
  using assms by (induction xs arbitrary: st) auto

lemma bar_step_skipped: "skipped df i \<Longrightarrow> bar_step df st i = st"
  by (simp add: bar_step_def)

lemma bar_step_evaluated:
  "\<not> skipped df i \<Longrightarrow> bar_step df st i =
     (apply_signal (signal_at df i) (df ! (i + 1)) i st)
       \<lparr>equity := equity (apply_signal (signal_at df i) (df ! (i + 1)) i st)
          @ [current_balance (apply_signal (signal_at df i) (df ! (i + 1)) i st)]\<rparr>"
  by (simp add: bar_step_def Let_def)

lemma fills_close_at_end: "fills (close_at_end df st) = fills st"
  by (simp add: close_at_end_def Let_def split: option.splits)

lemma equity_close_at_end: "equity (close_at_end df st) = equity st"
  by (simp add: close_at_end_def Let_def split: option.splits)

lemma position_close_at_end: "position (close_at_end df st) = position st"
  by (simp add: close_at_end_def Let_def split: option.splits)

lemma positions_close_at_end:
  "positions (close_at_end df st) =
     positions st @ (case position st of None \<Rightarrow> [] | Some p \<Rightarrow> [forced_trade df p])"
  by (simp add: close_at_end_def forced_trade_def Let_def split: option.splits)

lemma balance_close_at_end:
  "current_balance (close_at_end df st) =
     (case position st of None \<Rightarrow> current_balance st
      | Some p \<Rightarrow> fadd (current_balance st) (t_pnl (forced_trade df p)))"
  by (simp add: close_at_end_def forced_trade_def Let_def split: option.splits)

lemma run_upto_Suc:
  assumes "50 \<le> i" and "i + 1 < length df"
  shows "run_upto df (Suc i) = bar_step df (run_upto df i) i"
proof -
  have "min (Suc i) (length df - 1) = Suc i" and "min i (length df - 1) = i"
    using assms by auto
  then show ?thesis
    using assms by (simp add: run_upto_def)
qed

lemma run_upto_all: "length df - 1 \<le> k \<Longrightarrow> run_upto df k = run_loop df"
  by (simp add: run_upto_def run_loop_def min_def)

lemma fast_ma_nth: "i < length df \<Longrightarrow> fast_ma_col df ! i = rolling_mean 20 (close_col df) i"
  by (simp add: fast_ma_col_def)

lemma slow_ma_nth: "i < length df \<Longrightarrow> slow_ma_col df ! i = rolling_mean 50 (close_col df) i"
  by (simp add: slow_ma_col_def)

lemma rsi_nth:
  "i < length df \<Longrightarrow> rsi_col df ! i =
     fsub (Fin 100) (fdiv (Fin 100) (fadd (Fin 1)
       (fdiv (rolling_mean 14 (gain_col df) i)
             (fadd (rolling_mean 14 (loss_col df) i) (Fin (1 / 10000000000))))))"
  by (simp add: rsi_col_def rs_col_def avg_gain_col_def avg_loss_col_def)

lemmas row_defs = skipped_def signal_at_def detect_cross_def fgt_def fge_def

lemmas trade_defs = bar_step_def open_long_def open_short_def close_long_def close_short_def
  fee_of_def Let_def init_state_def starting_balance_def

section \<open>The sample streams, evaluated\<close>

lemma reversal_length: "length bars_reversal = 53"
  by (simp add: bars_reversal_def)

lemma reversal_averages:
  "rolling_mean 20 (close_col bars_reversal) 49 = Fin 99"
  "rolling_mean 50 (close_col bars_reversal) 49 = Fin (498 / 5)"
  "rolling_mean 20 (close_col bars_reversal) 50 = Fin (401 / 4)"
  "rolling_mean 50 (close_col bars_reversal) 50 = Fin (1001 / 10)"
  "rolling_mean 20 (close_col bars_reversal) 51 = Fin (399 / 4)"
  "rolling_mean 50 (close_col bars_reversal) 51 = Fin (999 / 10)"
  by code_simp+

lemma reversal_gain_loss:
  "rolling_mean 14 (gain_col bars_reversal) 50 = Fin (45 / 14)"
  "rolling_mean 14 (loss_col bars_reversal) 50 = Fin (10 / 7)"
  "rolling_mean 14 (gain_col bars_reversal) 51 = Fin (45 / 14)"
  "rolling_mean 14 (loss_col bars_reversal) 51 = Fin (55 / 14)"
  by code_simp+

lemma reversal_rows:
  "skipped bars_reversal 50 = False" "signal_at bars_reversal 50 = BullishCross"
  "skipped bars_reversal 51 = False" "signal_at bars_reversal 51 = BearishCross"
  by (simp_all add: row_defs fast_ma_nth slow_ma_nth rsi_nth reversal_length
        reversal_averages reversal_gain_loss)

lemma reversal_next_rows:
  "bars_reversal ! 51 = \<lparr>b_timestamp = 3060, b_open = Fin 120, b_high = Fin 120,
     b_low = Fin 90, b_close = Fin 90, b_volume = Fin 1\<rparr>"
  "bars_reversal ! 52 = \<lparr>b_timestamp = 3120, b_open = Fin 95, b_high = Fin 95,
     b_low = Fin 92, b_close = Fin 92, b_volume = Fin 1\<rparr>"
  "bars_reversal ! 50 = quiet_bar 3000 125"
  by (simp_all add: bars_reversal_def nth_append)

lemma reversal_last: "last bars_reversal =
   \<lparr>b_timestamp = 3120, b_open = Fin 95, b_high = Fin 95, b_low = Fin 92,
    b_close = Fin 92, b_volume = Fin 1\<rparr>"
  by (simp add: bars_reversal_def)

lemma reversal_after_50:
  "run_upto bars_reversal 51 =
     \<lparr>fills = [\<lparr>f_timestamp = 3060, f_instrument = ''TEST.SIM'', f_side = BUY,
                 f_quantity = Fin 1, f_price = Fin 120, f_commission = Fin (3 / 250)\<rparr>],
      positions = [],
      equity = [Fin 100000, Fin (24999997 / 250)],
      position = Some \<lparr>p_side = LONG, p_entry_price = Fin 120, p_entry_timestamp = 3060,
                       p_entry_idx = 51\<rparr>,
      current_balance = Fin (24999997 / 250)\<rparr>"
  by (simp add: run_upto_def reversal_length reversal_rows reversal_next_rows trade_defs)

lemma reversal_after_loop:
  "run_loop bars_reversal =
     \<lparr>fills = [\<lparr>f_timestamp = 3060, f_instrument = ''TEST.SIM'', f_side = BUY,
                 f_quantity = Fin 1, f_price = Fin 120, f_commission = Fin (3 / 250)\<rparr>,
               \<lparr>f_timestamp = 3120, f_instrument = ''TEST.SIM'', f_side = SELL,
                 f_quantity = Fin 1, f_price = Fin 95, f_commission = Fin (19 / 2000)\<rparr>,
               \<lparr>f_timestamp = 3120, f_instrument = ''TEST.SIM'', f_side = SELL,
                 f_quantity = Fin 1, f_price = Fin 95, f_commission = Fin (19 / 2000)\<rparr>],
      positions = [\<lparr>t_entry_time = 3060, t_exit_time = 3120, t_side = LONG,
                     t_quantity = Fin 1, t_entry_price = Fin 120, t_exit_price = Fin 95,
                     t_pnl = Fin (- (50019 / 2000))\<rparr>],
      equity = [Fin 100000, Fin (24999997 / 250), Fin (99974969 / 1000)],
      position = Some \<lparr>p_side = SHORT, p_entry_price = Fin 95, p_entry_timestamp = 3120,
                       p_entry_idx = 52\<rparr>,
      current_balance = Fin (99974969 / 1000)\<rparr>"
  by (simp add: run_loop_def reversal_length reversal_rows reversal_next_rows trade_defs)

lemma reversal_simulated:
  "simulate bars_reversal =
     \<lparr>fills = [\<lparr>f_timestamp = 3060, f_instrument = ''TEST.SIM'', f_side = BUY,
                 f_quantity = Fin 1, f_price = Fin 120, f_commission = Fin (3 / 250)\<rparr>,
               \<lparr>f_timestamp = 3120, f_instrument = ''TEST.SIM'', f_side = SELL,
                 f_quantity = Fin 1, f_price = Fin 95, f_commission = Fin (19 / 2000)\<rparr>,
               \<lparr>f_timestamp = 3120, f_instrument = ''TEST.SIM'', f_side = SELL,
                 f_quantity = Fin 1, f_price = Fin 95, f_commission = Fin (19 / 2000)\<rparr>],
      positions = [\<lparr>t_entry_time = 3060, t_exit_time = 3120, t_side = LONG,
                     t_quantity = Fin 1, t_entry_price = Fin 120, t_exit_price = Fin 95,
                     t_pnl = Fin (- (50019 / 2000))\<rparr>,
                   \<lparr>t_entry_time = 3120, t_exit_time = 3120, t_side = SHORT,
                     t_quantity = Fin 1, t_entry_price = Fin 95, t_exit_price = Fin 92,
                     t_pnl = Fin (7477 / 2500)\<rparr>],
      equity = [Fin 100000, Fin (24999997 / 250), Fin (99974969 / 1000)],
      position = Some \<lparr>p_side = SHORT, p_entry_price = Fin 95, p_entry_timestamp = 3120,
                       p_entry_idx = 52\<rparr>,
      current_balance = Fin (499889799 / 5000)\<rparr>"
  by (simp add: simulate_def reversal_after_loop close_at_end_def reversal_last fee_of_def)

lemma gap_length: "length bars_gap = 54"
  by (simp add: bars_gap_def reversal_length)

lemma gap_averages:
  "rolling_mean 50 (close_col bars_gap) 49 = NaN"
  "rolling_mean 20 (close_col bars_gap) 50 = Fin 99"
  "rolling_mean 50 (close_col bars_gap) 50 = Fin (498 / 5)"
  "rolling_mean 20 (close_col bars_gap) 51 = Fin (401 / 4)"
  "rolling_mean 50 (close_col bars_gap) 51 = Fin (1001 / 10)"
  "rolling_mean 20 (close_col bars_gap) 52 = Fin (399 / 4)"
  "rolling_mean 50 (close_col bars_gap) 52 = Fin (999 / 10)"
  by code_simp+

lemma gap_gain_loss:
  "rolling_mean 14 (gain_col bars_gap) 51 = Fin (45 / 14)"
  "rolling_mean 14 (loss_col bars_gap) 51 = Fin (10 / 7)"
  "rolling_mean 14 (gain_col bars_gap) 52 = Fin (45 / 14)"
  "rolling_mean 14 (loss_col bars_gap) 52 = Fin (55 / 14)"
  by code_simp+

lemma gap_previous_slow: "isna (slow_ma_col bars_gap ! (50 - 1))"
  by (simp add: slow_ma_nth gap_length gap_averages)

lemma gap_rows:
  "skipped bars_gap 50 = True"
  "skipped bars_gap 51 = False" "signal_at bars_gap 51 = BullishCross"
  "skipped bars_gap 52 = False" "signal_at bars_gap 52 = BearishCross"
  by (simp_all add: row_defs fast_ma_nth slow_ma_nth rsi_nth gap_length
        gap_averages gap_gain_loss)

lemma gap_next_rows:
  "bars_gap ! 50 = quiet_bar 2940 80"
  "bars_gap ! 51 = quiet_bar 3000 125"
  "bars_gap ! 52 = \<lparr>b_timestamp = 3060, b_open = Fin 120, b_high = Fin 120,
     b_low = Fin 90, b_close = Fin 90, b_volume = Fin 1\<rparr>"
  "bars_gap ! 53 = \<lparr>b_timestamp = 3120, b_open = Fin 95, b_high = Fin 95,
     b_low = Fin 92, b_close = Fin 92, b_volume = Fin 1\<rparr>"
  by (simp_all add: bars_gap_def bars_reversal_def nth_append)

lemma gap_after_loop:
  "run_loop bars_gap =
     \<lparr>fills = [\<lparr>f_timestamp = 3060, f_instrument = ''TEST.SIM'', f_side = BUY,
                 f_quantity = Fin 1, f_price = Fin 120, f_commission = Fin (3 / 250)\<rparr>,
               \<lparr>f_timestamp = 3120, f_instrument = ''TEST.SIM'', f_side = SELL,
                 f_quantity = Fin 1, f_price = Fin 95, f_commission = Fin (19 / 2000)\<rparr>,
               \<lparr>f_timestamp = 3120, f_instrument = ''TEST.SIM'', f_side = SELL,
                 f_quantity = Fin 1, f_price = Fin 95, f_commission = Fin (19 / 2000)\<rparr>],
      positions = [\<lparr>t_entry_time = 3060, t_exit_time = 3120, t_side = LONG,
                     t_quantity = Fin 1, t_entry_price = Fin 120, t_exit_price = Fin 95,
                     t_pnl = Fin (- (50019 / 2000))\<rparr>],
      equity = [Fin 100000, Fin (24999997 / 250), Fin (99974969 / 1000)],
      position = Some \<lparr>p_side = SHORT, p_entry_price = Fin 95, p_entry_timestamp = 3120,
                       p_entry_idx = 53\<rparr>,
      current_balance = Fin (99974969 / 1000)\<rparr>"
  by (simp add: run_loop_def gap_length gap_rows gap_next_rows trade_defs)

lemma gap_balances:
  "current_balance (run_upto bars_gap 52) = Fin (24999997 / 250)"
  "current_balance (run_upto bars_gap 53) = Fin (99974969 / 1000)"
  by (simp_all add: run_upto_def gap_length gap_rows gap_next_rows trade_defs)

lemma tail_gap_length: "length bars_tail_gap = 54"
  by (simp add: bars_tail_gap_def reversal_length)

lemma tail_gap_averages:
  "rolling_mean 20 (close_col bars_tail_gap) 49 = Fin 99"
  "rolling_mean 50 (close_col bars_tail_gap) 49 = Fin (498 / 5)"
  "rolling_mean 20 (close_col bars_tail_gap) 50 = Fin (401 / 4)"
  "rolling_mean 50 (close_col bars_tail_gap) 50 = Fin (1001 / 10)"
  "rolling_mean 20 (close_col bars_tail_gap) 51 = Fin (399 / 4)"
  "rolling_mean 50 (close_col bars_tail_gap) 51 = Fin (999 / 10)"
  "rolling_mean 20 (close_col bars_tail_gap) 52 = NaN"
  by code_simp+

lemma tail_gap_gain_loss:
  "rolling_mean 14 (gain_col bars_tail_gap) 50 = Fin (45 / 14)"
  "rolling_mean 14 (loss_col bars_tail_gap) 50 = Fin (10 / 7)"
  "rolling_mean 14 (gain_col bars_tail_gap) 51 = Fin (45 / 14)"
  "rolling_mean 14 (loss_col bars_tail_gap) 51 = Fin (55 / 14)"
  by code_simp+

lemma tail_gap_rows:
  "skipped bars_tail_gap 50 = False" "signal_at bars_tail_gap 50 = BullishCross"
  "skipped bars_tail_gap 51 = False" "signal_at bars_tail_gap 51 = BearishCross"
  "skipped bars_tail_gap 52 = True"
  by (simp_all add: row_defs fast_ma_nth slow_ma_nth rsi_nth tail_gap_length
        tail_gap_averages tail_gap_gain_loss)

lemma tail_gap_next_rows:
  "bars_tail_gap ! 50 = quiet_bar 3000 125"
  "bars_tail_gap ! 51 = \<lparr>b_timestamp = 3060, b_open = Fin 120, b_high = Fin 120,
     b_low = Fin 90, b_close = Fin 90, b_volume = Fin 1\<rparr>"
  "bars_tail_gap ! 52 = \<lparr>b_timestamp = 3120, b_open = Fin 95, b_high = Fin 95,
     b_low = Fin 92, b_close = NaN, b_volume = Fin 1\<rparr>"
  by (simp_all add: bars_tail_gap_def bars_reversal_def nth_append)

lemma tail_gap_equity:
  "equity (run_loop bars_tail_gap) = [Fin 100000, Fin (24999997 / 250), Fin (99974969 / 1000)]"
  by (simp add: run_loop_def tail_gap_length tail_gap_rows tail_gap_next_rows trade_defs)

lemma tail_gap_balances:
  "current_balance (run_upto bars_tail_gap 51) = Fin (24999997 / 250)"
  "current_balance (run_upto bars_tail_gap 52) = Fin (99974969 / 1000)"
  by (simp_all add: run_upto_def tail_gap_length tail_gap_rows tail_gap_next_rows trade_defs)

section \<open>The single position slot\<close>

lemma slot_ok_close_short: "slot_ok st \<Longrightarrow> slot_ok (close_short nb st)"
  by (auto simp: slot_ok_def close_short_def Let_def split: option.splits)

lemma slot_ok_close_long: "slot_ok st \<Longrightarrow> slot_ok (close_long nb st)"
  by (auto simp: slot_ok_def close_long_def Let_def split: option.splits)

lemma slot_ok_open_long: "slot_ok st \<Longrightarrow> slot_ok (open_long nb i st)"
  by (auto simp: slot_ok_def open_long_def Let_def split: option.splits)

lemma slot_ok_open_short: "slot_ok st \<Longrightarrow> slot_ok (open_short nb i st)"
  by (auto simp: slot_ok_def open_short_def Let_def split: option.splits)

lemma slot_ok_apply_signal: "slot_ok st \<Longrightarrow> slot_ok (apply_signal sg nb i st)"
  by (cases sg)
     (simp_all add: slot_ok_close_short slot_ok_close_long slot_ok_open_long slot_ok_open_short)

lemma slot_ok_equity: "slot_ok (st\<lparr>equity := e\<rparr>) = slot_ok st"
  by (simp add: slot_ok_def)

lemma slot_ok_bar_step: "slot_ok st \<Longrightarrow> slot_ok (bar_step df st i)"
  by (cases "skipped df i")
     (simp_all add: bar_step_skipped bar_step_evaluated slot_ok_equity slot_ok_apply_signal)

lemma slot_ok_init: "slot_ok init_state"
  by (simp add: slot_ok_def init_state_def)

lemma slot_ok_run_upto: "slot_ok (run_upto df k)"
  unfolding run_upto_def
  by (rule foldl_invariant) (simp_all add: slot_ok_init slot_ok_bar_step)

lemma open_keeps_held:
  "position st \<noteq> None \<Longrightarrow> open_long nb i st = st \<and> open_short nb i st = st"
  by (auto simp: open_long_def open_short_def)

lemma new_position_after_flat:
  assumes "position (bar_step df st i) = Some q" and "position st \<noteq> Some q"
  shows "position st = None
     \<or> (\<exists>p t. position st = Some p \<and> p_side p \<noteq> p_side q
          \<and> positions (bar_step df st i) = positions st @ [t]
          \<and> t_side t = p_side p \<and> t_entry_price t = p_entry_price p
          \<and> t_entry_time t = p_entry_timestamp p)"
proof (cases "skipped df i")
  case True
  with assms show ?thesis by (simp add: bar_step_skipped)
next
  case False
  with assms show ?thesis
    by (cases "signal_at df i"; cases "position st")
       (auto simp: bar_step_evaluated open_long_def open_short_def close_short_def
          close_long_def Let_def split: if_splits)
qed

text \<open>
  Claim C5. At every point of the pass, that is after the loop has handled the rows below
  any \<open>k\<close>, the ledger shows at most one position that was opened and not yet closed:
  the fills are two per closed trade plus one exactly when a position is held. An open
  block does nothing while a position is held, and whenever an iteration leaves a
  position that was not held before it, the state was flat before the iteration or the
  iteration first closed the position held (the close step of a reversal, which appends
  the closed trade of that position).
\<close>

theorem single_position_slot:
  "slot_ok (run_upto df k)
   \<and> (position st \<noteq> None \<longrightarrow> open_long nb i st = st \<and> open_short nb i st = st)
   \<and> (position (bar_step df st i) = Some q \<longrightarrow> position st \<noteq> Some q \<longrightarrow>
        position st = None
        \<or> (\<exists>p t. position st = Some p \<and> p_side p \<noteq> p_side q
             \<and> positions (bar_step df st i) = positions st @ [t]
             \<and> t_side t = p_side p \<and> t_entry_price t = p_entry_price p
             \<and> t_entry_time t = p_entry_timestamp p))"
  using slot_ok_run_upto open_keeps_held new_position_after_flat by blast

theorem single_position_slot_witness:
  "position (run_upto bars_reversal 51) =
     Some \<lparr>p_side = LONG, p_entry_price = Fin 120, p_entry_timestamp = 3060, p_entry_idx = 51\<rparr>
   \<and> position (bar_step bars_reversal (run_upto bars_reversal 51) 51) =
     Some \<lparr>p_side = SHORT, p_entry_price = Fin 95, p_entry_timestamp = 3120, p_entry_idx = 52\<rparr>
   \<and> (\<exists>t. positions (bar_step bars_reversal (run_upto bars_reversal 51) 51)
            = positions (run_upto bars_reversal 51) @ [t]
          \<and> t_side t = LONG \<and> t_entry_price t = Fin 120 \<and> t_entry_time t = 3060)
   \<and> slot_ok (run_upto bars_reversal 52)
   \<and> length (fills (run_upto bars_reversal 52)) = 3
   \<and> length (positions (run_upto bars_reversal 52)) = 1
   \<and> open_long (bars_reversal ! 52) 51 (run_upto bars_reversal 51) = run_upto bars_reversal 51"
proof -
  let ?st = "run_upto bars_reversal 51"
  let ?q = "\<lparr>p_side = SHORT, p_entry_price = Fin 95, p_entry_timestamp = 3120, p_entry_idx = 52\<rparr>"
  have step: "bar_step bars_reversal ?st 51 = run_loop bars_reversal"
    using run_upto_Suc[of 51 bars_reversal] run_upto_all[of bars_reversal 52]
    by (simp add: reversal_length)
  have all: "run_upto bars_reversal 52 = run_loop bars_reversal"
    using run_upto_all[of bars_reversal 52] by (simp add: reversal_length)
  have held: "position ?st \<noteq> None" by (simp add: reversal_after_50)
  have new: "position (bar_step bars_reversal ?st 51) = Some ?q"
    by (simp add: step reversal_after_loop)
  have old: "position ?st \<noteq> Some ?q" by (simp add: reversal_after_50)
  note inst = single_position_slot[where df = bars_reversal and k = 52 and st = ?st
      and nb = "bars_reversal ! 52" and i = 51 and q = ?q]
  from inst held have keep: "open_long (bars_reversal ! 52) 51 ?st = ?st" by blast
  from inst new old have
    "position ?st = None
     \<or> (\<exists>p t. position ?st = Some p \<and> p_side p \<noteq> p_side ?q
          \<and> positions (bar_step bars_reversal ?st 51) = positions ?st @ [t]
          \<and> t_side t = p_side p \<and> t_entry_price t = p_entry_price p
          \<and> t_entry_time t = p_entry_timestamp p)"
    by blast
  then have closed: "\<exists>t. positions (bar_step bars_reversal ?st 51) = positions ?st @ [t]
          \<and> t_side t = LONG \<and> t_entry_price t = Fin 120 \<and> t_entry_time t = 3060"
    by (auto simp: reversal_after_50)
  from inst have slot: "slot_ok (run_upto bars_reversal 52)" by blast
  show ?thesis
    using keep closed slot new
    by (simp add: all reversal_after_loop reversal_after_50)
qed

section \<open>Execution lags the signal by one bar\<close>

lemma executed_afterI:
  "50 \<le> i \<Longrightarrow> i + 1 < length df \<Longrightarrow> \<not> skipped df i \<Longrightarrow> signal_at df i = sg
     \<Longrightarrow> executed_after df sg (b_open (df ! (i + 1))) (b_timestamp (df ! (i + 1)))"
  unfolding executed_after_def list_ex_iff by (intro bexI[of _ i]) auto

lemma lag_ok_close_short:
  "lag_ok df st \<Longrightarrow> executed_after df BullishCross (b_open nb) (b_timestamp nb)
     \<Longrightarrow> lag_ok df (close_short nb st)"
  by (cases "position st")
     (auto simp: lag_ok_def close_short_def Let_def fill_lagged_def entry_lagged_def
        exit_lagged_def held_lagged_def)

lemma lag_ok_close_long:
  "lag_ok df st \<Longrightarrow> executed_after df BearishCross (b_open nb) (b_timestamp nb)
     \<Longrightarrow> lag_ok df (close_long nb st)"
  by (cases "position st")
     (auto simp: lag_ok_def close_long_def Let_def fill_lagged_def entry_lagged_def
        exit_lagged_def held_lagged_def)

lemma lag_ok_open_long:
  "lag_ok df st \<Longrightarrow> executed_after df BullishCross (b_open nb) (b_timestamp nb)
     \<Longrightarrow> lag_ok df (open_long nb i st)"
  by (cases "position st")
     (auto simp: lag_ok_def open_long_def Let_def fill_lagged_def held_lagged_def)

lemma lag_ok_open_short:
  "lag_ok df st \<Longrightarrow> executed_after df BearishCross (b_open nb) (b_timestamp nb)
     \<Longrightarrow> lag_ok df (open_short nb i st)"
  by (cases "position st")
     (auto simp: lag_ok_def open_short_def Let_def fill_lagged_def held_lagged_def)

lemma lag_ok_apply_signal:
  "lag_ok df st \<Longrightarrow> (sg \<noteq> NoSignal \<Longrightarrow> executed_after df sg (b_open nb) (b_timestamp nb))
     \<Longrightarrow> lag_ok df (apply_signal sg nb i st)"
  by (cases sg)
     (simp_all add: lag_ok_close_short lag_ok_close_long lag_ok_open_long lag_ok_open_short)

lemma lag_ok_equity: "lag_ok df (st\<lparr>equity := e\<rparr>) = lag_ok df st"
  by (simp add: lag_ok_def)

lemma lag_ok_bar_step:
  assumes "lag_ok df st" and "50 \<le> i" and "i + 1 < length df"
  shows "lag_ok df (bar_step df st i)"
proof (cases "skipped df i")
  case True
  with assms show ?thesis by (simp add: bar_step_skipped)
next
  case False
  then show ?thesis
    using assms executed_afterI[of i df "signal_at df i"]
    by (simp add: bar_step_evaluated lag_ok_equity lag_ok_apply_signal)
qed

lemma lag_ok_init: "lag_ok df init_state"
  by (simp add: lag_ok_def init_state_def held_lagged_def)

lemma lag_ok_run_loop: "lag_ok df (run_loop df)"
  unfolding run_loop_def
  by (rule foldl_invariant) (auto simp: lag_ok_init intro: lag_ok_bar_step)

text \<open>
  Claim C1. For every bar stream: each fill of the run carries the open price and the
  timestamp of the row after an evaluated row of the loop's range that showed the signal
  of the fill's side; each trade closed inside the loop was entered and left in the same
  way, on the signals that open and close its side; and when a position is still held
  after the loop, exactly one more trade is recorded, entered in that way and left at
  the close price and the timestamp of the last row.
\<close>

theorem execution_lags_signal:
  "(\<forall>f \<in> set (fills (simulate df)). fill_lagged df f)
   \<and> (\<forall>t \<in> set (positions (run_loop df)). entry_lagged df t \<and> exit_lagged df t)
   \<and> (case position (run_loop df) of
        None \<Rightarrow> positions (simulate df) = positions (run_loop df)
      | Some p \<Rightarrow> \<exists>t. positions (simulate df) = positions (run_loop df) @ [t]
          \<and> entry_lagged df t
          \<and> t_exit_price t = b_close (last df) \<and> t_exit_time t = b_timestamp (last df))"
proof -
  have ok: "lag_ok df (run_loop df)" by (rule lag_ok_run_loop)
  have a: "\<forall>f \<in> set (fills (simulate df)). fill_lagged df f"
    using ok by (simp add: simulate_def fills_close_at_end lag_ok_def list_all_iff)
  have b: "\<forall>t \<in> set (positions (run_loop df)). entry_lagged df t \<and> exit_lagged df t"
    using ok by (simp add: lag_ok_def list_all_iff)
  have c: "case position (run_loop df) of
        None \<Rightarrow> positions (simulate df) = positions (run_loop df)
      | Some p \<Rightarrow> \<exists>t. positions (simulate df) = positions (run_loop df) @ [t]
          \<and> entry_lagged df t
          \<and> t_exit_price t = b_close (last df) \<and> t_exit_time t = b_timestamp (last df)"
  proof (cases "position (run_loop df)")
    case None
    then show ?thesis by (simp add: simulate_def positions_close_at_end)
  next
    case (Some p)
    have "entry_lagged df (forced_trade df p)"
      using ok Some by (simp add: lag_ok_def held_lagged_def entry_lagged_def forced_trade_def)
    then show ?thesis
      using Some by (simp add: simulate_def positions_close_at_end forced_trade_def)
  qed
  from a b c show ?thesis by blast
qed

theorem execution_lags_signal_witness:
  "length (fills (simulate bars_reversal)) = 3
   \<and> list_all (fill_lagged bars_reversal) (fills (simulate bars_reversal))
   \<and> length (positions (run_loop bars_reversal)) = 1
   \<and> list_all (\<lambda>t. entry_lagged bars_reversal t \<and> exit_lagged bars_reversal t)
        (positions (run_loop bars_reversal))
   \<and> t_exit_price (hd (positions (run_loop bars_reversal))) = b_open (bars_reversal ! 52)
   \<and> (\<exists>t. positions (simulate bars_reversal) = positions (run_loop bars_reversal) @ [t]
          \<and> entry_lagged bars_reversal t
          \<and> t_exit_price t = Fin 92 \<and> t_exit_time t = 3120)"
proof -
  note inst = execution_lags_signal[of bars_reversal]
  from inst have a: "list_all (fill_lagged bars_reversal) (fills (simulate bars_reversal))"
    by (simp add: list_all_iff)
  from inst have b: "list_all (\<lambda>t. entry_lagged bars_reversal t \<and> exit_lagged bars_reversal t)
        (positions (run_loop bars_reversal))"
    by (simp add: list_all_iff)
  from inst have c: "\<exists>t. positions (simulate bars_reversal) = positions (run_loop bars_reversal) @ [t]
          \<and> entry_lagged bars_reversal t
          \<and> t_exit_price t = Fin 92 \<and> t_exit_time t = 3120"
    by (simp add: reversal_after_loop reversal_last)
  show ?thesis
    using a b c by (simp add: reversal_after_loop reversal_simulated reversal_next_rows)
qed

section \<open>The recorded profit of a closed trade\<close>

lemma pnl_ok_close_short:
  "list_all pnl_ok (positions st) \<Longrightarrow> list_all pnl_ok (positions (close_short nb st))"
  by (cases "position st")
     (auto simp: close_short_def Let_def pnl_ok_def exit_fee_pnl_def side_difference_def)

lemma pnl_ok_close_long:
  "list_all pnl_ok (positions st) \<Longrightarrow> list_all pnl_ok (positions (close_long nb st))"
  by (cases "position st")
     (auto simp: close_long_def Let_def pnl_ok_def exit_fee_pnl_def side_difference_def)

lemma positions_open_long: "positions (open_long nb i st) = positions st"
  by (simp add: open_long_def Let_def split: option.splits)

lemma positions_open_short: "positions (open_short nb i st) = positions st"
  by (simp add: open_short_def Let_def split: option.splits)

lemma pnl_ok_apply_signal:
  "list_all pnl_ok (positions st) \<Longrightarrow> list_all pnl_ok (positions (apply_signal sg nb i st))"
  by (cases sg)
     (simp_all add: positions_open_long positions_open_short pnl_ok_close_short
        pnl_ok_close_long)

lemma pnl_ok_bar_step:
  "list_all pnl_ok (positions st) \<Longrightarrow> list_all pnl_ok (positions (bar_step df st i))"
  by (cases "skipped df i")
     (simp_all add: bar_step_skipped bar_step_evaluated pnl_ok_apply_signal)

lemma pnl_ok_run_loop: "list_all pnl_ok (positions (run_loop df))"
  unfolding run_loop_def
  by (rule foldl_invariant) (simp_all add: init_state_def pnl_ok_bar_step)

lemma pnl_ok_forced_trade: "pnl_ok (forced_trade df p)"
  by (cases "p_side p")
     (simp_all add: pnl_ok_def forced_trade_def exit_fee_pnl_def side_difference_def)

lemma pnl_ok_simulate: "list_all pnl_ok (positions (simulate df))"
  using pnl_ok_run_loop[of df]
  by (simp add: simulate_def positions_close_at_end pnl_ok_forced_trade split: option.splits)

lemma exit_fee_pnl_numbers:
  "exit_fee_pnl \<lparr>t_entry_time = a, t_exit_time = b, t_side = LONG, t_quantity = Fin 1,
       t_entry_price = Fin en, t_exit_price = Fin ex, t_pnl = x\<rparr>
     = Fin ((ex - en) * 1 - ex * (1 / 10000) * 1)"
  "exit_fee_pnl \<lparr>t_entry_time = a, t_exit_time = b, t_side = SHORT, t_quantity = Fin 1,
       t_entry_price = Fin en, t_exit_price = Fin ex, t_pnl = x\<rparr>
     = Fin ((en - ex) * 1 - ex * (1 / 10000) * 1)"
  by (simp_all add: exit_fee_pnl_def side_difference_def fee_of_def)

text \<open>
  Claim C2, as the code has it. Every closed trade of a run has quantity 1 and its
  recorded profit is the price difference in the direction of its side times the
  quantity, minus the fee of the exit alone; the fee of the entry was taken from the
  balance when the position was opened and is not part of the record. In the exact
  arithmetic of the model the equality has no tolerance.
\<close>

theorem recorded_pnl_net_of_exit_fee:
  "\<forall>t \<in> set (positions (simulate df)). t_quantity t = Fin 1 \<and> t_pnl t = exit_fee_pnl t"
  using pnl_ok_simulate[of df] by (simp add: list_all_iff pnl_ok_def)

theorem recorded_pnl_net_of_exit_fee_witness:
  "length (positions (simulate bars_reversal)) = 2
   \<and> list_all (\<lambda>t. t_quantity t = Fin 1 \<and> t_pnl t = exit_fee_pnl t)
        (positions (simulate bars_reversal))
   \<and> t_pnl (positions (simulate bars_reversal) ! 0) = Fin ((95 - 120) * 1 - 95 * (1 / 10000) * 1)
   \<and> t_pnl (positions (simulate bars_reversal) ! 1) = Fin ((95 - 92) * 1 - 92 * (1 / 10000) * 1)"
proof -
  from recorded_pnl_net_of_exit_fee[of bars_reversal]
  have all: "list_all (\<lambda>t. t_quantity t = Fin 1 \<and> t_pnl t = exit_fee_pnl t)
        (positions (simulate bars_reversal))"
    by (simp add: list_all_iff)
  then have "t_pnl (positions (simulate bars_reversal) ! 0)
       = exit_fee_pnl (positions (simulate bars_reversal) ! 0)"
    and "t_pnl (positions (simulate bars_reversal) ! 1)
       = exit_fee_pnl (positions (simulate bars_reversal) ! 1)"
    by (simp_all add: reversal_simulated)
  then show ?thesis
    using all by (simp add: reversal_simulated exit_fee_pnl_numbers)
qed

text \<open>
  The formula of the specification fails on the sample stream: the long trade entered
  at 120 and left at 95 is recorded with \<open>-25.0095\<close>, while the difference net of both
  fees is \<open>-25.0215\<close>; the two are 0.012 apart, the entry fee.
\<close>

theorem recorded_pnl_not_net_of_entry_fee:
  "positions (simulate bars_reversal) ! 0 =
      \<lparr>t_entry_time = 3060, t_exit_time = 3120, t_side = LONG, t_quantity = Fin 1,
       t_entry_price = Fin 120, t_exit_price = Fin 95, t_pnl = Fin (- (50019 / 2000))\<rparr>
   \<and> spec_pnl (positions (simulate bars_reversal) ! 0) = Fin (- (50043 / 2000))
   \<and> \<not> within_tolerance (t_pnl (positions (simulate bars_reversal) ! 0))
         (spec_pnl (positions (simulate bars_reversal) ! 0))
   \<and> \<not> list_all (\<lambda>t. within_tolerance (t_pnl t) (spec_pnl t))
         (positions (simulate bars_reversal))"
  by (simp add: reversal_simulated spec_pnl_def side_difference_def fee_of_def)

section \<open>Closures, reversals and skipped bars\<close>

lemma forced_closure_general:
  assumes "position (run_loop df) = Some p"
  shows "positions (simulate df) = positions (run_loop df) @ [forced_trade df p]"
    and "t_exit_price (forced_trade df p) = b_close (last df)"
    and "fills (simulate df) = fills (run_loop df)"
    and "current_balance (simulate df)
           = fadd (current_balance (run_loop df)) (t_pnl (forced_trade df p))"
    and "position (simulate df) = Some p"
  using assms
  by (simp_all add: simulate_def positions_close_at_end fills_close_at_end
        balance_close_at_end position_close_at_end forced_trade_def)

lemma flat_after_loop_unchanged:
  "position (run_loop df) = None \<Longrightarrow> simulate df = run_loop df"
  by (simp add: simulate_def close_at_end_def)

text \<open>A closure inside the loop appends its fill together with its trade.\<close>

lemma closure_pairs_fill:
  assumes "positions (bar_step df st i) \<noteq> positions st"
  shows "\<exists>t f rest. positions (bar_step df st i) = positions st @ [t]
           \<and> fills (bar_step df st i) = fills st @ f # rest
           \<and> f_price f = t_exit_price t \<and> f_timestamp f = t_exit_time t
           \<and> f_commission f = fee_of (t_exit_price t)"
proof (cases "skipped df i")
  case True
  with assms show ?thesis by (simp add: bar_step_skipped)
next
  case False
  with assms show ?thesis
    by (cases "signal_at df i"; cases "position st")
       (auto simp: bar_step_evaluated open_long_def open_short_def close_short_def
          close_long_def Let_def split: if_splits)
qed

lemma opening_step:
  "length (positions (bar_step df st i)) + held_count (bar_step df st i)
     = length (positions st) + held_count st
       + (case position (bar_step df st i) of
            None \<Rightarrow> 0
          | Some q \<Rightarrow> if position st \<noteq> Some q then 1 else 0)"
proof (cases "skipped df i")
  case True
  then show ?thesis
    by (cases "position st") (simp_all add: bar_step_skipped held_count_def)
next
  case False
  then show ?thesis
    by (cases "signal_at df i"; cases "position st")
       (auto simp: bar_step_evaluated held_count_def open_long_def open_short_def
          close_short_def close_long_def Let_def)
qed

lemma opened_so_far:
  "m \<le> length df - 1 \<Longrightarrow>
     length (positions (run_upto df m)) + held_count (run_upto df m)
       = length (filter (opens_position df) [50..<m])"
proof (induction m)
  case 0
  then show ?case by (simp add: run_upto_def init_state_def held_count_def)
next
  case (Suc m)
  show ?case
  proof (cases "50 \<le> m")
    case False
    then show ?thesis by (simp add: run_upto_def init_state_def held_count_def)
  next
    case True
    from Suc.prems have lt: "m + 1 < length df" by simp
    from Suc.prems have "m \<le> length df - 1" by simp
    then have ih: "length (positions (run_upto df m)) + held_count (run_upto df m)
        = length (filter (opens_position df) [50..<m])"
      by (rule Suc.IH)
    have step: "run_upto df (Suc m) = bar_step df (run_upto df m) m"
      using True lt by (rule run_upto_Suc)
    have "length (positions (run_upto df (Suc m))) + held_count (run_upto df (Suc m))
        = length (positions (run_upto df m)) + held_count (run_upto df m)
          + (if opens_position df m then 1 else 0)"
      using opening_step[of df "run_upto df m" m]
      by (simp add: step[symmetric] opens_position_def split: option.splits)
    then show ?thesis using True by (simp add: ih)
  qed
qed

lemma opened_count_loop:
  "length (positions (run_loop df)) + held_count (run_loop df) = opened_count df"
  using opened_so_far[of "length df - 1" df] run_upto_all[of df "length df - 1"]
  by (simp add: opened_count_def)

lemma every_opened_position_closed: "length (positions (simulate df)) = opened_count df"
  using opened_count_loop[of df]
  by (simp add: simulate_def positions_close_at_end held_count_def split: option.splits)

text \<open>
  Claim C6. When the rows run out while a position is held, the closure of lines 208 to
  229 appends exactly one closed trade, that of the position held, left at the close
  price and the timestamp of the last row; it adds the trade's profit to the balance
  and records no fill. The pass then ends flat: the closed trades are as many as the
  positions the pass opened, so none is left open. (The local variable \<open>position\<close>
  is not assigned by these lines and nothing reads it after them.) A closure inside
  the loop, in contrast, appends the fill of its exit together with its trade.
\<close>

theorem forced_closure_ends_flat:
  "(position (run_loop df) = Some p \<longrightarrow>
      (\<exists>t. positions (simulate df) = positions (run_loop df) @ [t]
         \<and> t_exit_price t = b_close (last df) \<and> t_exit_time t = b_timestamp (last df)
         \<and> t_side t = p_side p \<and> t_entry_price t = p_entry_price p
         \<and> t_entry_time t = p_entry_timestamp p \<and> t_quantity t = Fin 1
         \<and> current_balance (simulate df) = fadd (current_balance (run_loop df)) (t_pnl t))
      \<and> fills (simulate df) = fills (run_loop df)
      \<and> length (positions (run_loop df)) + 1 = opened_count df)
   \<and> length (positions (simulate df)) = opened_count df
   \<and> (positions (bar_step df st i) \<noteq> positions st \<longrightarrow>
        (\<exists>t f rest. positions (bar_step df st i) = positions st @ [t]
           \<and> fills (bar_step df st i) = fills st @ f # rest
           \<and> f_price f = t_exit_price t \<and> f_timestamp f = t_exit_time t
           \<and> f_commission f = fee_of (t_exit_price t)))"
proof -
  have a: "\<exists>t. positions (simulate df) = positions (run_loop df) @ [t]
         \<and> t_exit_price t = b_close (last df) \<and> t_exit_time t = b_timestamp (last df)
         \<and> t_side t = p_side p \<and> t_entry_price t = p_entry_price p
         \<and> t_entry_time t = p_entry_timestamp p \<and> t_quantity t = Fin 1
         \<and> current_balance (simulate df) = fadd (current_balance (run_loop df)) (t_pnl t)"
    if "position (run_loop df) = Some p"
    using forced_closure_general(1,4)[OF that]
    by (intro exI[of _ "forced_trade df p"]) (simp add: forced_trade_def)
  have b: "fills (simulate df) = fills (run_loop df)"
    by (simp add: simulate_def fills_close_at_end)
  have c: "length (positions (run_loop df)) + 1 = opened_count df"
    if "position (run_loop df) = Some p"
    using opened_count_loop[of df] that by (simp add: held_count_def)
  from a b c every_opened_position_closed[of df] closure_pairs_fill[of df st i]
  show ?thesis by blast
qed

lemma reversal_opened: "opened_count bars_reversal = 2"
proof -
  have s50: "run_upto bars_reversal 50 = init_state" by (simp add: run_upto_def)
  have s52: "run_upto bars_reversal 52 = run_loop bars_reversal"
    using run_upto_all[of bars_reversal 52] by (simp add: reversal_length)
  have "opens_position bars_reversal 50" and "opens_position bars_reversal 51"
    by (simp_all add: opens_position_def s50 s52 reversal_after_50 reversal_after_loop
          init_state_def)
  then show ?thesis by (simp add: opened_count_def reversal_length)
qed

theorem forced_closure_ends_flat_witness:
  "position (run_loop bars_reversal) =
     Some \<lparr>p_side = SHORT, p_entry_price = Fin 95, p_entry_timestamp = 3120, p_entry_idx = 52\<rparr>
   \<and> positions (simulate bars_reversal) = positions (run_loop bars_reversal) @
       [\<lparr>t_entry_time = 3120, t_exit_time = 3120, t_side = SHORT, t_quantity = Fin 1,
         t_entry_price = Fin 95, t_exit_price = Fin 92, t_pnl = Fin (7477 / 2500)\<rparr>]
   \<and> b_close (last bars_reversal) = Fin 92
   \<and> fills (simulate bars_reversal) = fills (run_loop bars_reversal)
   \<and> length (fills (simulate bars_reversal)) = 3
   \<and> length (positions (run_loop bars_reversal)) + 1 = opened_count bars_reversal
   \<and> opened_count bars_reversal = 2
   \<and> length (positions (simulate bars_reversal)) = 2"
proof -
  let ?p = "\<lparr>p_side = SHORT, p_entry_price = Fin 95, p_entry_timestamp = 3120, p_entry_idx = 52\<rparr>"
  have held: "position (run_loop bars_reversal) = Some ?p" by (simp add: reversal_after_loop)
  note inst = forced_closure_ends_flat[where df = bars_reversal and p = ?p]
  from inst held have f: "fills (simulate bars_reversal) = fills (run_loop bars_reversal)"
    and o: "length (positions (run_loop bars_reversal)) + 1 = opened_count bars_reversal"
    by blast+
  from inst have c: "length (positions (simulate bars_reversal)) = opened_count bars_reversal"
    by blast
  have t: "positions (simulate bars_reversal) = positions (run_loop bars_reversal) @
       [\<lparr>t_entry_time = 3120, t_exit_time = 3120, t_side = SHORT, t_quantity = Fin 1,
         t_entry_price = Fin 95, t_exit_price = Fin 92, t_pnl = Fin (7477 / 2500)\<rparr>]"
    by (simp add: reversal_simulated reversal_after_loop)
  have l: "b_close (last bars_reversal) = Fin 92" by (simp add: reversal_last)
  have n: "length (fills (simulate bars_reversal)) = 3" by (simp add: reversal_simulated)
  from held t l f n o c reversal_opened show ?thesis by simp
qed

text \<open>
  Claim C7. When an evaluated row shows a bullish cross while a short position is held,
  or a bearish cross while a long position is held, the iteration appends exactly two
  fills. Both carry the open price and the timestamp of the next row and the same side
  (buy for the bullish cross, sell for the bearish one); the first closes the position
  held, whose closed trade is appended, the second opens the opposite position.
\<close>

theorem reversal_two_fills:
  assumes "\<not> skipped df i" and "position st = Some p"
    and "(signal_at df i = BullishCross \<and> p_side p = SHORT)
         \<or> (signal_at df i = BearishCross \<and> p_side p = LONG)"
  shows "\<exists>f1 f2 t q. fills (bar_step df st i) = fills st @ [f1, f2]
     \<and> f_price f1 = b_open (df ! (i + 1)) \<and> f_price f2 = b_open (df ! (i + 1))
     \<and> f_timestamp f1 = b_timestamp (df ! (i + 1))
     \<and> f_timestamp f2 = b_timestamp (df ! (i + 1))
     \<and> f_side f1 = (if p_side p = SHORT then BUY else SELL) \<and> f_side f2 = f_side f1
     \<and> positions (bar_step df st i) = positions st @ [t]
     \<and> t_side t = p_side p \<and> t_entry_price t = p_entry_price p
     \<and> t_exit_price t = f_price f1 \<and> t_exit_time t = f_timestamp f1
     \<and> position (bar_step df st i) = Some q
     \<and> p_side q \<noteq> p_side p \<and> p_entry_price q = f_price f2
     \<and> p_entry_timestamp q = f_timestamp f2"
  using assms
  by (auto simp: bar_step_evaluated open_long_def open_short_def close_short_def
        close_long_def Let_def)

theorem reversal_two_fills_witness:
  "\<exists>f1 f2 t q. fills (bar_step bars_reversal (run_upto bars_reversal 51) 51)
        = fills (run_upto bars_reversal 51) @ [f1, f2]
     \<and> f_price f1 = Fin 95 \<and> f_price f2 = Fin 95
     \<and> f_timestamp f1 = 3120 \<and> f_timestamp f2 = 3120
     \<and> f_side f1 = SELL \<and> f_side f2 = SELL
     \<and> positions (bar_step bars_reversal (run_upto bars_reversal 51) 51)
        = positions (run_upto bars_reversal 51) @ [t]
     \<and> t_side t = LONG \<and> t_entry_price t = Fin 120
     \<and> position (bar_step bars_reversal (run_upto bars_reversal 51) 51) = Some q
     \<and> p_side q = SHORT \<and> p_entry_price q = Fin 95"
proof -
  let ?st = "run_upto bars_reversal 51"
  let ?p = "\<lparr>p_side = LONG, p_entry_price = Fin 120, p_entry_timestamp = 3060, p_entry_idx = 51\<rparr>"
  have a: "\<not> skipped bars_reversal 51" by (simp add: reversal_rows)
  have b: "position ?st = Some ?p" by (simp add: reversal_after_50)
  have c: "(signal_at bars_reversal 51 = BullishCross \<and> p_side ?p = SHORT)
         \<or> (signal_at bars_reversal 51 = BearishCross \<and> p_side ?p = LONG)"
    by (simp add: reversal_rows)
  from reversal_two_fills[OF a b c] obtain f1 f2 t q where
    "fills (bar_step bars_reversal ?st 51) = fills ?st @ [f1, f2]
     \<and> f_price f1 = b_open (bars_reversal ! (51 + 1))
     \<and> f_price f2 = b_open (bars_reversal ! (51 + 1))
     \<and> f_timestamp f1 = b_timestamp (bars_reversal ! (51 + 1))
     \<and> f_timestamp f2 = b_timestamp (bars_reversal ! (51 + 1))
     \<and> f_side f1 = (if p_side ?p = SHORT then BUY else SELL) \<and> f_side f2 = f_side f1
     \<and> positions (bar_step bars_reversal ?st 51) = positions ?st @ [t]
     \<and> t_side t = p_side ?p \<and> t_entry_price t = p_entry_price ?p
     \<and> t_exit_price t = f_price f1 \<and> t_exit_time t = f_timestamp f1
     \<and> position (bar_step bars_reversal ?st 51) = Some q
     \<and> p_side q \<noteq> p_side ?p \<and> p_entry_price q = f_price f2
     \<and> p_entry_timestamp q = f_timestamp f2"
    by blast
  then have "fills (bar_step bars_reversal ?st 51) = fills ?st @ [f1, f2]
     \<and> f_price f1 = Fin 95 \<and> f_price f2 = Fin 95
     \<and> f_timestamp f1 = 3120 \<and> f_timestamp f2 = 3120
     \<and> f_side f1 = SELL \<and> f_side f2 = SELL
     \<and> positions (bar_step bars_reversal ?st 51) = positions ?st @ [t]
     \<and> t_side t = LONG \<and> t_entry_price t = Fin 120
     \<and> position (bar_step bars_reversal ?st 51) = Some q
     \<and> p_side q = SHORT \<and> p_entry_price q = Fin 95"
    by (cases "p_side q") (simp_all add: reversal_next_rows)
  then show ?thesis by blast
qed

lemma run_loop_split:
  assumes "50 \<le> i" and "i + 1 < length df"
  shows "run_loop df = foldl (bar_step df) (bar_step df (run_upto df i) i) [Suc i..<length df - 1]"
proof -
  have "[50..<i + (length df - 1 - i)] = [50..<i] @ [i..<i + (length df - 1 - i)]"
    using assms(1) by (rule upt_add_eq_append)
  moreover have "i + (length df - 1 - i) = length df - 1" using assms by simp
  moreover have "[i..<length df - 1] = i # [Suc i..<length df - 1]"
    using assms by (simp add: upt_conv_Cons)
  ultimately have "[50..<length df - 1] = [50..<i] @ i # [Suc i..<length df - 1]"
    by simp
  moreover have "min i (length df - 1) = i" using assms by auto
  ultimately show ?thesis by (simp add: run_loop_def run_upto_def)
qed

text \<open>
  Claim C9. A row whose fast average, slow average or RSI is \<open>NaN\<close>, or whose previous
  row has a \<open>NaN\<close> average, changes nothing: the iteration returns the state it was
  given, position included, with no fill, no trade and no equity entry. The loop goes
  on with the rows after it from that unchanged state.
\<close>

theorem skipped_bar_changes_nothing:
  assumes "isna (fast_ma_col df ! i) \<or> isna (slow_ma_col df ! i) \<or> isna (rsi_col df ! i)
           \<or> isna (fast_ma_col df ! (i - 1)) \<or> isna (slow_ma_col df ! (i - 1))"
  shows "bar_step df st i = st
     \<and> foldl (bar_step df) st (i # rest) = foldl (bar_step df) st rest
     \<and> (50 \<le> i \<longrightarrow> i + 1 < length df \<longrightarrow>
          run_loop df = foldl (bar_step df) (run_upto df i) [Suc i..<length df - 1])"
proof -
  from assms have sk: "skipped df i" by (auto simp: skipped_def)
  then have a: "bar_step df s i = s" for s by (simp add: bar_step_skipped)
  then have b: "foldl (bar_step df) st (i # rest) = foldl (bar_step df) st rest" by simp
  have c: "run_loop df = foldl (bar_step df) (run_upto df i) [Suc i..<length df - 1]"
    if "50 \<le> i" "i + 1 < length df"
    using run_loop_split[OF that] a by simp
  from a b c show ?thesis by blast
qed

theorem skipped_bar_changes_nothing_witness:
  "isna (slow_ma_col bars_gap ! (50 - 1))
   \<and> bar_step bars_gap init_state 50 = init_state
   \<and> run_upto bars_gap 50 = init_state
   \<and> run_loop bars_gap = foldl (bar_step bars_gap) init_state [51..<53]
   \<and> length (fills (run_loop bars_gap)) = 3
   \<and> position (run_loop bars_gap) =
       Some \<lparr>p_side = SHORT, p_entry_price = Fin 95, p_entry_timestamp = 3120, p_entry_idx = 53\<rparr>"
proof -
  have h: "isna (fast_ma_col bars_gap ! 50) \<or> isna (slow_ma_col bars_gap ! 50)
           \<or> isna (rsi_col bars_gap ! 50)
           \<or> isna (fast_ma_col bars_gap ! (50 - 1)) \<or> isna (slow_ma_col bars_gap ! (50 - 1))"
    using gap_previous_slow by blast
  note inst = skipped_bar_changes_nothing[OF h, of init_state "[]"]
  have start: "run_upto bars_gap 50 = init_state" by (simp add: run_upto_def)
  from inst have a: "bar_step bars_gap init_state 50 = init_state" by blast
  have "(50::nat) \<le> 50" and "50 + 1 < length bars_gap" by (simp_all add: gap_length)
  with inst have "run_loop bars_gap = foldl (bar_step bars_gap) (run_upto bars_gap 50)
          [Suc 50..<length bars_gap - 1]"
    by blast
  then have b: "run_loop bars_gap = foldl (bar_step bars_gap) init_state [51..<53]"
    by (simp only: start gap_length) simp
  have c: "length (fills (run_loop bars_gap)) = 3"
    and d: "position (run_loop bars_gap) =
       Some \<lparr>p_side = SHORT, p_entry_price = Fin 95, p_entry_timestamp = 3120, p_entry_idx = 53\<rparr>"
    by (simp_all add: gap_after_loop)
  from gap_previous_slow a start b c d show ?thesis by blast
qed

section \<open>The equity list\<close>

lemma equity_close_short: "equity (close_short nb st) = equity st"
  by (simp add: close_short_def Let_def split: option.splits)

lemma equity_close_long: "equity (close_long nb st) = equity st"
  by (simp add: close_long_def Let_def split: option.splits)

lemma equity_open_long: "equity (open_long nb i st) = equity st"
  by (simp add: open_long_def Let_def split: option.splits)

lemma equity_open_short: "equity (open_short nb i st) = equity st"
  by (simp add: open_short_def Let_def split: option.splits)

lemma equity_apply_signal: "equity (apply_signal sg nb i st) = equity st"
  by (cases sg)
     (simp_all add: equity_close_short equity_close_long equity_open_long equity_open_short)

lemma equity_bar_step:
  "equity (bar_step df st i) =
     equity st @ (if skipped df i then [] else [current_balance (bar_step df st i)])"
  by (simp add: bar_step_skipped bar_step_evaluated equity_apply_signal)

lemma equity_run_upto:
  "m \<le> length df - 1 \<Longrightarrow>
     equity (run_upto df m) =
       Fin 100000 # map (\<lambda>i. current_balance (run_upto df (Suc i)))
                        (filter (\<lambda>i. \<not> skipped df i) [50..<m])"
proof (induction m)
  case 0
  then show ?case by (simp add: run_upto_def init_state_def)
next
  case (Suc m)
  show ?case
  proof (cases "50 \<le> m")
    case False
    then show ?thesis by (simp add: run_upto_def init_state_def)
  next
    case True
    from Suc.prems have lt: "m + 1 < length df" by simp
    from Suc.prems have "m \<le> length df - 1" by simp
    then have ih: "equity (run_upto df m) =
       Fin 100000 # map (\<lambda>i. current_balance (run_upto df (Suc i)))
                        (filter (\<lambda>i. \<not> skipped df i) [50..<m])"
      by (rule Suc.IH)
    have step: "run_upto df (Suc m) = bar_step df (run_upto df m) m"
      using True lt by (rule run_upto_Suc)
    have "equity (run_upto df (Suc m)) =
        equity (run_upto df m)
          @ (if skipped df m then [] else [current_balance (run_upto df (Suc m))])"
      unfolding step by (rule equity_bar_step)
    then show ?thesis using True by (simp add: ih)
  qed
qed

lemma equity_run_loop:
  "equity (run_loop df) =
     Fin 100000 # map (\<lambda>i. current_balance (run_upto df (Suc i))) (evaluated_bars df)"
  using equity_run_upto[of "length df - 1" df] run_upto_all[of df "length df - 1"]
  by (simp add: evaluated_bars_def)

lemma length_evaluated_bars: "length (evaluated_bars df) \<le> length df - 51"
proof -
  have "length (evaluated_bars df) \<le> length [50..<length df - 1]"
    unfolding evaluated_bars_def by (rule length_filter_le)
  then show ?thesis by simp
qed

lemma quiet_step:
  "\<not> skipped df i \<Longrightarrow> signal_at df i = NoSignal
     \<Longrightarrow> bar_step df st i = st\<lparr>equity := equity st @ [current_balance st]\<rparr>"
  by (simp add: bar_step_evaluated)

subsection \<open>Streams whose closes are all equal\<close>

lemma window_replicate:
  "w \<le> Suc i \<Longrightarrow> i < n \<Longrightarrow> window w (replicate n x) i = replicate w x"
  by (simp add: window_def min_def)

lemma rolling_mean_replicate:
  assumes "0 < w" and "w \<le> Suc i" and "i < n"
  shows "rolling_mean w (replicate n (Fin c)) i = Fin c"
proof -
  have "window w (replicate n (Fin c)) i = replicate w (Fin c)"
    using assms by (simp add: window_replicate)
  moreover have "\<not> list_ex isna (replicate w (Fin c))"
    by (simp add: list_ex_iff)
  moreover have "sum_list (map fval (replicate w (Fin c))) / real w = c"
    using assms(1) by (simp add: sum_list_replicate)
  ultimately show ?thesis
    using assms by (simp add: rolling_mean_def)
qed

lemma flat_close_col:
  assumes "\<forall>b \<in> set df. b_close b = Fin c"
  shows "close_col df = replicate (length df) (Fin c)"
proof -
  have "map b_close df = map (\<lambda>b. Fin c) df"
    using assms by (intro map_cong) auto
  then show ?thesis by (simp add: close_col_def map_replicate_const)
qed

lemma flat_price_diff:
  "i < n \<Longrightarrow> gain_of (price_diff (replicate n (Fin c)) i) = Fin 0
     \<and> loss_of (price_diff (replicate n (Fin c)) i) = Fin 0"
  by (simp add: price_diff_def gain_of_def loss_of_def fgt_def)

lemma flat_gain_loss_col:
  assumes "\<forall>b \<in> set df. b_close b = Fin c"
  shows "gain_col df = replicate (length df) (Fin 0)"
    and "loss_col df = replicate (length df) (Fin 0)"
proof -
  have "map (\<lambda>i. gain_of (price_diff (replicate (length df) (Fin c)) i)) [0..<length df]
        = map (\<lambda>i. Fin 0) [0..<length df]"
    by (intro map_cong) (auto simp: flat_price_diff)
  then show "gain_col df = replicate (length df) (Fin 0)"
    by (simp add: gain_col_def flat_close_col[OF assms] map_replicate_const)
  have "map (\<lambda>i. loss_of (price_diff (replicate (length df) (Fin c)) i)) [0..<length df]
        = map (\<lambda>i. Fin 0) [0..<length df]"
    by (intro map_cong) (auto simp: flat_price_diff)
  then show "loss_col df = replicate (length df) (Fin 0)"
    by (simp add: loss_col_def flat_close_col[OF assms] map_replicate_const)
qed

lemma flat_row:
  assumes "\<forall>b \<in> set df. b_close b = Fin c" and "50 \<le> i" and "i < length df"
  shows "\<not> skipped df i" and "signal_at df i = NoSignal"
proof -
  note cols = flat_close_col[OF assms(1)] flat_gain_loss_col[OF assms(1)]
  have cur: "fast_ma_col df ! i = Fin c" "slow_ma_col df ! i = Fin c"
    using assms(2,3) by (simp_all add: fast_ma_nth slow_ma_nth cols rolling_mean_replicate)
  have prev: "fast_ma_col df ! (i - 1) = Fin c" "slow_ma_col df ! (i - 1) = Fin c"
    using assms(2,3) by (simp_all add: fast_ma_nth slow_ma_nth cols rolling_mean_replicate)
  have rsi: "rsi_col df ! i = Fin 0"
    using assms(2,3) by (simp add: rsi_nth cols rolling_mean_replicate)
  show "\<not> skipped df i" using cur prev rsi by (simp add: skipped_def)
  show "signal_at df i = NoSignal"
    using cur prev rsi by (simp add: signal_at_def detect_cross_def fgt_def fge_def)
qed

lemma flat_fold:
  assumes "\<forall>b \<in> set df. b_close b = Fin c" and "\<forall>i \<in> set rows. 50 \<le> i \<and> i < length df"
  shows "foldl (bar_step df) st rows
           = st\<lparr>equity := equity st @ replicate (length rows) (current_balance st)\<rparr>"
  using assms(2)
proof (induction rows arbitrary: st)
  case Nil
  then show ?case by simp
next
  case (Cons i rows)
  then have "bar_step df st i = st\<lparr>equity := equity st @ [current_balance st]\<rparr>"
    using flat_row[OF assms(1), of i] by (simp add: quiet_step)
  then show ?case
    using Cons by (simp add: replicate_app_Cons_same)
qed

lemma flat_run_loop:
  assumes "\<forall>b \<in> set df. b_close b = Fin c"
  shows "run_loop df = \<lparr>fills = [], positions = [],
      equity = replicate (Suc (length df - 51)) (Fin 100000),
      position = None, current_balance = Fin 100000\<rparr>"
proof -
  have "run_loop df = init_state\<lparr>equity := equity init_state
      @ replicate (length [50..<length df - 1]) (current_balance init_state)\<rparr>"
    unfolding run_loop_def by (rule flat_fold[OF assms]) auto
  then show ?thesis
    by (simp add: init_state_def starting_balance_def replicate_append_same)
qed

lemma flat_simulate:
  assumes "\<forall>b \<in> set df. b_close b = Fin c"
  shows "simulate df = \<lparr>fills = [], positions = [],
      equity = replicate (Suc (length df - 51)) (Fin 100000),
      position = None, current_balance = Fin 100000\<rparr>"
  by (simp add: flat_after_loop_unchanged flat_run_loop[OF assms])

lemma flat_signals:
  assumes "\<forall>b \<in> set df. b_close b = Fin c"
  shows "map (signal_at df) [50..<length df - 1] = replicate (length df - 51) NoSignal"
    and "evaluated_bars df = [50..<length df - 1]"
proof -
  have "map (signal_at df) [50..<length df - 1] = map (\<lambda>i. NoSignal) [50..<length df - 1]"
    by (intro map_cong) (auto simp: flat_row[OF assms])
  then show "map (signal_at df) [50..<length df - 1] = replicate (length df - 51) NoSignal"
    by (simp add: map_replicate_const)
  show "evaluated_bars df = [50..<length df - 1]"
    unfolding evaluated_bars_def by (rule filter_True) (auto simp: flat_row[OF assms])
qed

text \<open>
  Claim C8. For 100 bars whose closes are all the same number (with the periods 20, 50
  and 14 of the source), every row of the loop's range is evaluated and shows no
  signal, no fill and no closed trade is recorded, the balance stays at 100000, and the
  equity table has the 50 rows 50 to 99, each with 100000.
\<close>

theorem flat_stream_no_trades:
  assumes "length df = 100" and "\<forall>b \<in> set df. b_close b = Fin c"
  shows "map (signal_at df) [50..<99] = replicate 49 NoSignal
     \<and> evaluated_bars df = [50..<99]
     \<and> fills (simulate df) = [] \<and> positions (simulate df) = []
     \<and> current_balance (simulate df) = starting_balance
     \<and> equity (simulate df) = replicate 50 starting_balance
     \<and> equity_curve df = Inr (zip (map (\<lambda>i. b_timestamp (df ! i)) [50..<100])
                                 (replicate 50 starting_balance))"
proof -
  have sim: "simulate df = \<lparr>fills = [], positions = [],
      equity = replicate 50 (Fin 100000), position = None, current_balance = Fin 100000\<rparr>"
    using flat_simulate[OF assms(2)] by (simp add: assms(1))
  have "map (signal_at df) [50..<99] = replicate 49 NoSignal"
    and "evaluated_bars df = [50..<99]"
    using flat_signals[OF assms(2)] by (simp_all add: assms(1))
  then show ?thesis
    by (simp add: sim starting_balance_def equity_curve_def equity_timestamps_def assms(1))
qed

lemma flat100_facts:
  "length bars_flat100 = 100" "\<forall>b \<in> set bars_flat100. b_close b = Fin 100"
  by (auto simp: bars_flat100_def quiet_bar_def)

lemma flat100_timestamps:
  "map (\<lambda>i. b_timestamp (bars_flat100 ! i)) [50..<100] = map (\<lambda>i. 60 * int i) [50..<100]"
  by (intro map_cong) (auto simp: bars_flat100_def quiet_bar_def)

theorem flat_stream_no_trades_witness:
  "length bars_flat100 = 100
   \<and> list_all (\<lambda>b. b_close b = Fin 100) bars_flat100
   \<and> map (signal_at bars_flat100) [50..<99] = replicate 49 NoSignal
   \<and> fills (simulate bars_flat100) = [] \<and> positions (simulate bars_flat100) = []
   \<and> equity (simulate bars_flat100) = replicate 50 (Fin 100000)
   \<and> equity_curve bars_flat100
        = Inr (zip (map (\<lambda>i. 60 * int i) [50..<100]) (replicate 50 (Fin 100000)))"
proof -
  note inst = flat_stream_no_trades[OF flat100_facts, unfolded starting_balance_def
      flat100_timestamps]
  have "list_all (\<lambda>b. b_close b = Fin 100) bars_flat100"
    using flat100_facts(2) by (simp only: list_all_iff)
  with inst flat100_facts(1) show ?thesis by blast
qed

lemma flat52_facts:
  "length bars_flat52 = 52" "\<forall>b \<in> set bars_flat52. b_close b = Fin 100"
  by (auto simp: bars_flat52_def quiet_bar_def)

lemma flat52_row: "\<not> skipped bars_flat52 50" "signal_at bars_flat52 50 = NoSignal"
  using flat_row[OF flat52_facts(2), of 50] by (simp_all add: flat52_facts(1))

text \<open>
  Claim C4, as the code has it. The equity list starts with the starting balance, and
  the loop appends to it once for every evaluated row of its range, whatever happened on
  the row: the entry is the balance after the row's iteration, so a row with no signal
  repeats the balance it found, and the close and reopen of a reversal share one entry.
  A skipped row appends nothing.
\<close>

theorem equity_point_per_evaluated_bar:
  "equity (run_loop df) =
     starting_balance # map (\<lambda>i. current_balance (run_upto df (Suc i))) (evaluated_bars df)
   \<and> (\<not> skipped df i \<longrightarrow> signal_at df i = NoSignal \<longrightarrow>
        bar_step df st i = st\<lparr>equity := equity st @ [current_balance st]\<rparr>)
   \<and> (\<not> skipped df i \<longrightarrow>
        equity (bar_step df st i) = equity st @ [current_balance (bar_step df st i)])
   \<and> (skipped df i \<longrightarrow> equity (bar_step df st i) = equity st)"
  using equity_run_loop[of df] quiet_step[of df i st] equity_bar_step[of df st i]
  by (simp add: starting_balance_def)

theorem equity_point_per_evaluated_bar_witness:
  "evaluated_bars bars_reversal = [50, 51]
   \<and> equity (run_loop bars_reversal) =
       [Fin 100000, current_balance (run_upto bars_reversal 51),
        current_balance (run_upto bars_reversal 52)]
   \<and> length (fills (run_loop bars_reversal)) = 3
   \<and> signal_at bars_flat52 50 = NoSignal
   \<and> bar_step bars_flat52 init_state 50
        = init_state\<lparr>equity := equity init_state @ [current_balance init_state]\<rparr>
   \<and> equity (bar_step bars_flat52 init_state 50) = [Fin 100000, Fin 100000]
   \<and> skipped bars_gap 50
   \<and> equity (bar_step bars_gap init_state 50) = equity init_state"
proof -
  have ev: "evaluated_bars bars_reversal = [50, 51]"
    by (simp add: evaluated_bars_def reversal_length reversal_rows)
  from equity_point_per_evaluated_bar[of bars_reversal]
  have a: "equity (run_loop bars_reversal) =
       [Fin 100000, current_balance (run_upto bars_reversal 51),
        current_balance (run_upto bars_reversal 52)]"
    by (simp add: ev starting_balance_def)
  from equity_point_per_evaluated_bar[of bars_flat52 50 init_state] flat52_row
  have b: "bar_step bars_flat52 init_state 50
        = init_state\<lparr>equity := equity init_state @ [current_balance init_state]\<rparr>"
    by blast
  then have c: "equity (bar_step bars_flat52 init_state 50) = [Fin 100000, Fin 100000]"
    by (simp add: init_state_def starting_balance_def)
  from equity_point_per_evaluated_bar[of bars_gap 50 init_state] gap_rows(1)
  have d: "equity (bar_step bars_gap init_state 50) = equity init_state"
    by simp
  have e: "length (fills (run_loop bars_reversal)) = 3" by (simp add: reversal_after_loop)
  from ev a e flat52_row(2) b c gap_rows(1) d show ?thesis by simp
qed

text \<open>
  The claim as stated fails on 52 bars that all close at 100: the run charges no fee and
  closes no trade, the balance never moves, and still the equity list gets an entry for
  row 50.
\<close>

theorem equity_point_without_action:
  "fills (simulate bars_flat52) = [] \<and> positions (simulate bars_flat52) = []
   \<and> current_balance (simulate bars_flat52) = Fin 100000
   \<and> evaluated_bars bars_flat52 = [50]
   \<and> equity (simulate bars_flat52) = [Fin 100000, Fin 100000]"
  using flat_simulate[OF flat52_facts(2)] flat_signals(2)[OF flat52_facts(2)]
  by (simp add: flat52_facts(1) numeral_2_eq_2)

section \<open>The rows of the equity table\<close>

lemma filter_upt_nth:
  "k < length (filter P [a..<b]) \<Longrightarrow>
     filter P [a..<b] ! k = a + k + length (filter (\<lambda>i. \<not> P i) [a..<filter P [a..<b] ! k])"
proof (induction b arbitrary: k)
  case 0
  then show ?case by simp
next
  case (Suc b)
  show ?case
  proof (cases "a \<le> b")
    case False
    with Suc.prems show ?thesis by simp
  next
    case True
    show ?thesis
    proof (cases "k < length (filter P [a..<b])")
      case True
      with \<open>a \<le> b\<close> Suc.IH[OF True] show ?thesis by (simp add: nth_append)
    next
      case False
      with Suc.prems \<open>a \<le> b\<close> have pb: "P b" and k: "k = length (filter P [a..<b])"
        by (auto split: if_splits)
      have "length (filter P [a..<b]) + length (filter (\<lambda>i. \<not> P i) [a..<b]) = b - a"
        using sum_length_filter_compl[of P "[a..<b]"] by simp
      with \<open>a \<le> b\<close> pb k show ?thesis by simp
    qed
  qed
qed

lemma evaluated_bars_nth:
  assumes "k < length (evaluated_bars df)"
  shows "evaluated_bars df ! k = 50 + k + skipped_before df (evaluated_bars df ! k)"
  using filter_upt_nth[of k "\<lambda>i. \<not> skipped df i" 50 "length df - 1"] assms
  by (simp add: evaluated_bars_def skipped_before_def)

lemma evaluated_bars_range:
  "i \<in> set (evaluated_bars df) \<Longrightarrow> 50 \<le> i \<and> i + 1 < length df"
  by (auto simp: evaluated_bars_def)

lemma equity_simulate:
  "equity (simulate df) =
     Fin 100000 # map (\<lambda>i. current_balance (run_upto df (Suc i))) (evaluated_bars df)"
  by (simp add: simulate_def equity_close_at_end equity_run_loop)

lemma equity_curve_rows:
  assumes "51 \<le> length df"
  shows "equity_curve df =
     Inr (zip (map (\<lambda>j. b_timestamp (df ! j)) [50..<51 + length (evaluated_bars df)])
              (equity (simulate df)))"
proof -
  have "length (equity (simulate df)) = Suc (length (evaluated_bars df))"
    by (simp add: equity_simulate)
  moreover have "50 + Suc (length (evaluated_bars df)) \<le> length df"
    using length_evaluated_bars[of df] assms by simp
  ultimately show ?thesis
    by (simp add: equity_curve_def equity_timestamps_def)
qed

lemma equity_curve_short: "length df \<le> 50 \<Longrightarrow> equity_curve df = Inl IndexError"
  by (simp add: equity_curve_def equity_timestamps_def equity_simulate)

lemma unshifted_rows:
  assumes "list_all (\<lambda>i. skipped_before df i = 0) (evaluated_bars df)"
  shows "50 # map Suc (evaluated_bars df) = [50..<51 + length (evaluated_bars df)]"
proof (rule nth_equalityI)
  show "length (50 # map Suc (evaluated_bars df)) = length [50..<51 + length (evaluated_bars df)]"
    by simp
next
  fix k
  assume "k < length (50 # map Suc (evaluated_bars df))"
  then have k: "k \<le> length (evaluated_bars df)" by simp
  show "(50 # map Suc (evaluated_bars df)) ! k = [50..<51 + length (evaluated_bars df)] ! k"
  proof (cases k)
    case 0
    then show ?thesis by simp
  next
    case (Suc j)
    with k have j: "j < length (evaluated_bars df)" by simp
    then have "skipped_before df (evaluated_bars df ! j) = 0"
      using assms by (simp add: list_all_length)
    with evaluated_bars_nth[OF j] have "evaluated_bars df ! j = 50 + j" by simp
    with Suc j show ?thesis by simp
  qed
qed

lemma timestamps_injective:
  assumes "distinct (map b_timestamp df)"
  shows "inj_on (\<lambda>i. b_timestamp (df ! i)) {..<length df}"
proof (rule inj_onI)
  fix i j
  assume "i \<in> {..<length df}" and "j \<in> {..<length df}"
    and "b_timestamp (df ! i) = b_timestamp (df ! j)"
  then have eq: "map b_timestamp df ! i = map b_timestamp df ! j"
    and i: "i < length (map b_timestamp df)" and j: "j < length (map b_timestamp df)"
    by simp_all
  have "(map b_timestamp df ! i = map b_timestamp df ! j) = (i = j)"
    using assms i j by (rule nth_eq_iff_index_eq)
  with eq show "i = j" by blast
qed

lemma paired_iff_no_skip_before:
  assumes "51 \<le> length df" and "distinct (map b_timestamp df)"
  shows "paired_as_unskipped df
           = list_all (\<lambda>i. skipped_before df i = 0) (evaluated_bars df)"
proof
  assume "list_all (\<lambda>i. skipped_before df i = 0) (evaluated_bars df)"
  then show "paired_as_unskipped df"
    by (simp add: paired_as_unskipped_def equity_curve_rows[OF assms(1)] unshifted_rows)
next
  let ?ev = "evaluated_bars df"
  let ?ts = "\<lambda>i. b_timestamp (df ! i)"
  assume "paired_as_unskipped df"
  then have "zip (map ?ts [50..<51 + length ?ev]) (equity (simulate df))
           = zip (map ?ts (50 # map Suc ?ev)) (equity (simulate df))"
    by (simp add: paired_as_unskipped_def equity_curve_rows[OF assms(1)])
  then have "map fst (zip (map ?ts [50..<51 + length ?ev]) (equity (simulate df)))
           = map fst (zip (map ?ts (50 # map Suc ?ev)) (equity (simulate df)))"
    by simp
  then have eq: "map ?ts [50..<51 + length ?ev] = map ?ts (50 # map Suc ?ev)"
    by (simp add: equity_simulate)
  have bound: "51 + length ?ev \<le> length df"
    using length_evaluated_bars[of df] assms(1) by simp
  have "set [50..<51 + length ?ev] \<union> set (50 # map Suc ?ev) \<subseteq> {..<length df}"
    using bound evaluated_bars_range[of _ df] by auto
  then have "inj_on ?ts (set [50..<51 + length ?ev] \<union> set (50 # map Suc ?ev))"
    using timestamps_injective[OF assms(2)] by (rule inj_on_subset[rotated])
  then have same: "[50..<51 + length ?ev] = 50 # map Suc ?ev"
    using eq by (simp only: inj_on_map_eq_map)
  show "list_all (\<lambda>i. skipped_before df i = 0) ?ev"
    unfolding list_all_length
  proof (intro allI impI)
    fix k
    assume k: "k < length ?ev"
    have "[50..<51 + length ?ev] ! Suc k = (50 # map Suc ?ev) ! Suc k"
      by (simp only: same)
    with k have "?ev ! k = 50 + k" by simp
    with evaluated_bars_nth[OF k] show "skipped_before df (?ev ! k) = 0" by simp
  qed
qed

text \<open>
  Claim C10, as the code has it. A skipped row appends nothing, so the equity list is the
  starting balance followed by one balance per evaluated row, and the table pairs it
  with the timestamps of the consecutive rows from 50 on (a table of fewer than 51 rows
  makes line 244 raise). The balance appended by the \<open>k\<close>-th evaluated row \<open>i\<close> therefore
  stands next to the timestamp of row \<open>50 + (k + 1)\<close>, which is row \<open>i + 1\<close> less the
  number of rows skipped before \<open>i\<close>. With distinct timestamps the table has the pairing
  of a run without skipped rows exactly when no evaluated row comes after a skipped one.
\<close>

theorem equity_rows_shift_after_skips:
  "equity (simulate df) =
     starting_balance # map (\<lambda>i. current_balance (run_upto df (Suc i))) (evaluated_bars df)
   \<and> (51 \<le> length df \<longrightarrow>
        equity_curve df =
          Inr (zip (map (\<lambda>j. b_timestamp (df ! j)) [50..<51 + length (evaluated_bars df)])
                   (equity (simulate df))))
   \<and> (k < length (evaluated_bars df) \<longrightarrow>
        evaluated_bars df ! k + 1
          = 50 + (k + 1) + skipped_before df (evaluated_bars df ! k))
   \<and> (51 \<le> length df \<longrightarrow> distinct (map b_timestamp df) \<longrightarrow>
        paired_as_unskipped df
          = list_all (\<lambda>i. skipped_before df i = 0) (evaluated_bars df))
   \<and> (length df \<le> 50 \<longrightarrow> equity_curve df = Inl IndexError)"
proof -
  have a: "equity (simulate df) =
     starting_balance # map (\<lambda>i. current_balance (run_upto df (Suc i))) (evaluated_bars df)"
    by (simp add: equity_simulate starting_balance_def)
  have c: "evaluated_bars df ! k + 1
          = 50 + (k + 1) + skipped_before df (evaluated_bars df ! k)"
    if "k < length (evaluated_bars df)"
    using evaluated_bars_nth[OF that] by arith
  from a c equity_curve_rows[of df] paired_iff_no_skip_before[of df] equity_curve_short[of df]
  show ?thesis by blast
qed

lemma gap_evaluated: "evaluated_bars bars_gap = [51, 52]"
  by (simp add: evaluated_bars_def gap_length gap_rows)

lemma gap_skipped_before: "skipped_before bars_gap 51 = 1" "skipped_before bars_gap 52 = 1"
  by (simp_all add: skipped_before_def gap_rows)

lemma gap_distinct: "distinct (map b_timestamp bars_gap)"
  by code_simp

theorem equity_rows_shift_after_skips_witness:
  "evaluated_bars bars_gap = [51, 52]
   \<and> skipped_before bars_gap 51 = 1
   \<and> equity (simulate bars_gap) = [Fin 100000, Fin (24999997 / 250), Fin (99974969 / 1000)]
   \<and> equity_curve bars_gap =
       Inr [(b_timestamp (bars_gap ! 50), Fin 100000),
            (b_timestamp (bars_gap ! 51), current_balance (run_upto bars_gap (Suc 51))),
            (b_timestamp (bars_gap ! 52), current_balance (run_upto bars_gap (Suc 52)))]
   \<and> evaluated_bars bars_gap ! 0 + 1 = 50 + (0 + 1) + 1
   \<and> \<not> paired_as_unskipped bars_gap"
proof -
  note inst = equity_rows_shift_after_skips[of bars_gap 0]
  have len: "51 \<le> length bars_gap" by (simp add: gap_length)
  from inst have eq: "equity (simulate bars_gap) =
      starting_balance # map (\<lambda>i. current_balance (run_upto bars_gap (Suc i)))
        (evaluated_bars bars_gap)"
    by blast
  then have a: "equity (simulate bars_gap)
      = [Fin 100000, Fin (24999997 / 250), Fin (99974969 / 1000)]"
    by (simp add: gap_evaluated gap_balances starting_balance_def)
  from inst len have "equity_curve bars_gap =
          Inr (zip (map (\<lambda>j. b_timestamp (bars_gap ! j))
                 [50..<51 + length (evaluated_bars bars_gap)])
                   (equity (simulate bars_gap)))"
    by blast
  then have b: "equity_curve bars_gap =
       Inr [(b_timestamp (bars_gap ! 50), Fin 100000),
            (b_timestamp (bars_gap ! 51), current_balance (run_upto bars_gap (Suc 51))),
            (b_timestamp (bars_gap ! 52), current_balance (run_upto bars_gap (Suc 52)))]"
    by (simp add: eq gap_evaluated starting_balance_def)
  from inst have c: "evaluated_bars bars_gap ! 0 + 1 = 50 + (0 + 1) + 1"
    by (simp add: gap_evaluated gap_skipped_before)
  from inst len gap_distinct have "paired_as_unskipped bars_gap
          = list_all (\<lambda>i. skipped_before bars_gap i = 0) (evaluated_bars bars_gap)"
    by blast
  then have d: "\<not> paired_as_unskipped bars_gap"
    by (simp add: gap_evaluated gap_skipped_before)
  from gap_evaluated gap_skipped_before(1) a b c d show ?thesis by blast
qed

lemma tail_gap_evaluated: "evaluated_bars bars_tail_gap = [50, 51]"
  by (simp add: evaluated_bars_def tail_gap_length tail_gap_rows)

text \<open>
  The claim as stated fails on a stream whose only skipped row is the last of the range
  (row 52, whose close is missing): rows 50 and 51 are evaluated, no row is skipped
  before either of them, and the table pairs the starting balance with row 50, the
  balance after row 50 with row 51 and the balance after row 51 with row 52, which is
  the pairing of a run without skipped rows.
\<close>

theorem trailing_skip_keeps_pairing:
  "skipped bars_tail_gap 52
   \<and> list_ex (skipped bars_tail_gap) [50..<length bars_tail_gap - 1]
   \<and> evaluated_bars bars_tail_gap = [50, 51]
   \<and> skipped_before bars_tail_gap 50 = 0 \<and> skipped_before bars_tail_gap 51 = 0
   \<and> equity_curve bars_tail_gap =
       Inr [(b_timestamp (bars_tail_gap ! 50), starting_balance),
            (b_timestamp (bars_tail_gap ! Suc 50), current_balance (run_upto bars_tail_gap (Suc 50))),
            (b_timestamp (bars_tail_gap ! Suc 51), current_balance (run_upto bars_tail_gap (Suc 51)))]
   \<and> paired_as_unskipped bars_tail_gap"
proof -
  have len: "51 \<le> length bars_tail_gap" by (simp add: tail_gap_length)
  have sb: "skipped_before bars_tail_gap 50 = 0" "skipped_before bars_tail_gap 51 = 0"
    by (simp_all add: skipped_before_def tail_gap_rows)
  have ex: "list_ex (skipped bars_tail_gap) [50..<length bars_tail_gap - 1]"
    by (simp add: tail_gap_length tail_gap_rows)
  have rows: "equity_curve bars_tail_gap =
       Inr [(b_timestamp (bars_tail_gap ! 50), starting_balance),
            (b_timestamp (bars_tail_gap ! Suc 50), current_balance (run_upto bars_tail_gap (Suc 50))),
            (b_timestamp (bars_tail_gap ! Suc 51), current_balance (run_upto bars_tail_gap (Suc 51)))]"
    by (simp add: equity_curve_rows[OF len] equity_simulate tail_gap_evaluated
          starting_balance_def)
  have "paired_as_unskipped bars_tail_gap"
    by (simp add: paired_as_unskipped_def equity_curve_rows[OF len] tail_gap_evaluated)
  with tail_gap_rows(5) ex tail_gap_evaluated sb rows show ?thesis by blast
qed

end
